(* ===== verification/Prelude.thy ===== *)
theory Prelude
  imports Main "HOL-Library.Sublist"
begin

text \<open>
  Shared groundwork of the development: the fact collections that the component
  theories fill and use, the type of effectful computations, and the generic facts
  about outcomes and about traces (lists of calls) that the component proofs rely on.

  A computation of the script is a function from the state of the outside world to an
  outcome and the next state. The outcome is a sum: \<open>Inl e\<close> when the statement
  raised \<open>e\<close>, \<open>Inr v\<close> when it returned \<open>v\<close>. The state is threaded through in both
  cases, since a handler or a cleanup block runs in the state the failed statement
  left behind.
\<close>

section \<open>Fact collections\<close>

named_theorems run_simps "evaluation rules of the control-flow combinators"
named_theorems api_simps "operations of the concrete interfaces, unfolded"
named_theorems world_simps "operations of the simulated world, applied to a state"
named_theorems frame_simps "what an operation of the simulated world leaves unchanged"

section \<open>Computations and outcomes\<close>

type_synonym ('e, 'a) outcome = "'e + 'a"

type_synonym ('e, 'w, 'a) comp = "'w \<Rightarrow> ('e, 'a) outcome \<times> 'w"

abbreviation outcome_of :: "('e, 'a) outcome \<times> 'w \<Rightarrow> ('e, 'a) outcome" where
  "outcome_of \<equiv> fst"

abbreviation state_of :: "('e, 'a) outcome \<times> 'w \<Rightarrow> 'w" where
  "state_of \<equiv> snd"

definition returned :: "('e, 'a) outcome \<Rightarrow> bool" where
  "returned r = (case r of Inl _ \<Rightarrow> False | Inr _ \<Rightarrow> True)"

lemma returned_simps [simp]:
  "returned (Inr v)" "\<not> returned (Inl e)"
  by (simp_all add: returned_def)

lemma not_returned_iff: "\<not> returned r \<longleftrightarrow> (\<exists>e. r = Inl e)"
  by (cases r) simp_all

lemma returned_unit_iff [simp]: "returned (r :: ('e, unit) outcome) \<longleftrightarrow> r = Inr ()"
  by (cases r) simp_all

lemma outcome_of_eq_iff: "outcome_of x = r \<longleftrightarrow> (\<exists>w. x = (r, w))"
  by (cases x) auto

lemma comp_cases [case_names Raised Returned]:
  assumes "\<And>e w'. m w = (Inl e, w') \<Longrightarrow> P" and "\<And>v w'. m w = (Inr v, w') \<Longrightarrow> P"
  shows P
  using assms by (cases "m w"; cases "fst (m w)") auto

section \<open>Traces\<close>

text \<open>
  A trace is the list of calls made so far, oldest first. How often a call occurs in
  it is \<open>count_list\<close>; that a trace extends another is \<open>prefix\<close>.
\<close>

lemma count_list_take_le: "count_list (take n xs) x \<le> count_list xs x"
proof -
  have "count_list xs x = count_list (take n xs) x + count_list (drop n xs) x"
    by (metis append_take_drop_id count_list_append)
  then show ?thesis by simp
qed

lemma notin_set_take: "x \<notin> set xs \<Longrightarrow> x \<notin> set (take n xs)"
  by (auto dest: in_set_takeD)

lemma count_list_take_notin [simp]: "x \<notin> set xs \<Longrightarrow> count_list (take n xs) x = 0"
  by (simp add: notin_set_take)

lemma prefix_take [simp]: "prefix (take n xs) xs"
  by (metis append_take_drop_id prefixI)

end
