(* ===== verification/Py_Control.thy ===== *)
theory Py_Control
  imports Prelude
begin

text \<open>
  The control constructs of Python that \<^verbatim>\<open>src/verify_debounce.py\<close> is written in:
  exceptions and their two classes (\<^verbatim>\<open>except Exception as e\<close> catches one of
  them only), statement sequencing, \<^verbatim>\<open>try ... except\<close>, \<^verbatim>\<open>try ... finally\<close> and
  the \<^verbatim>\<open>with\<close> statement. Each construct is one combinator on computations; the
  lemmas are the laws by which the script's proofs evaluate them.
\<close>

section \<open>Exceptions\<close>

text \<open>
  An exception carries its class and its message. The classes are the failure
  conditions the script can meet: three kinds of browser-automation failure, any
  other subclass of \<^verbatim>\<open>Exception\<close>, and the exceptions that derive from
  \<^verbatim>\<open>BaseException\<close> alone (\<^verbatim>\<open>KeyboardInterrupt\<close>, \<^verbatim>\<open>SystemExit\<close>).
\<close>

datatype exn_kind =
    NavigationError
  | TimeoutError
  | ElementInteractionError
  | OtherException
  | BaseExceptionOnly

datatype exn = Exn (kind: exn_kind) (message: string)

definition is_Exception :: "exn \<Rightarrow> bool" where
  "is_Exception e = (kind e \<noteq> BaseExceptionOnly)"

definition str_exn :: "exn \<Rightarrow> string" where
  "str_exn e = message e"

lemma is_Exception_simps [simp]:
  "is_Exception (Exn NavigationError m)"
  "is_Exception (Exn TimeoutError m)"
  "is_Exception (Exn ElementInteractionError m)"
  "is_Exception (Exn OtherException m)"
  "\<not> is_Exception (Exn BaseExceptionOnly m)"
  by (simp_all add: is_Exception_def)

lemma str_exn_Exn [simp]: "str_exn (Exn k m) = m"
  by (simp add: str_exn_def)

section \<open>Statements\<close>

type_synonym ('w, 'a) py = "(exn, 'w, 'a) comp"

definition ret :: "'a \<Rightarrow> ('w, 'a) py" where
  "ret v = (\<lambda>w. (Inr v, w))"

definition then_do :: "('w, 'a) py \<Rightarrow> ('a \<Rightarrow> ('w, 'b) py) \<Rightarrow> ('w, 'b) py" where
  "then_do m k = (\<lambda>w. case m w of (Inl e, w') \<Rightarrow> (Inl e, w') | (Inr v, w') \<Rightarrow> k v w')"

definition seq :: "('w, 'a) py \<Rightarrow> ('w, 'b) py \<Rightarrow> ('w, 'b) py" where
  "seq m n = then_do m (\<lambda>_. n)"

text \<open>
  \<^verbatim>\<open>try: m  except Exception as e: h e\<close>. The handler runs in the state the body
  left, only for an exception of class \<^verbatim>\<open>Exception\<close>; what the handler raises is
  raised by the statement.
\<close>

definition try_except :: "('w, 'a) py \<Rightarrow> (exn \<Rightarrow> ('w, 'a) py) \<Rightarrow> ('w, 'a) py" where
  "try_except m h =
     (\<lambda>w. case m w of
        (Inl e, w') \<Rightarrow> if is_Exception e then h e w' else (Inl e, w')
      | (Inr v, w') \<Rightarrow> (Inr v, w'))"

text \<open>
  \<^verbatim>\<open>try: m  finally: f\<close>. The cleanup block runs after the body on every path. When
  it raises, its exception replaces the outcome of the body; otherwise the outcome of
  the body stands.
\<close>

definition try_finally :: "('w, 'a) py \<Rightarrow> ('w, 'b) py \<Rightarrow> ('w, 'a) py" where
  "try_finally m f =
     (\<lambda>w. case m w of
        (r, w') \<Rightarrow> (case f w' of (Inl e, w'') \<Rightarrow> (Inl e, w'') | (Inr _, w'') \<Rightarrow> (r, w'')))"

text \<open>
  \<^verbatim>\<open>with enter as x: body x\<close>, for a context manager whose exit returns nothing (so
  it never swallows an exception): when entering raises, nothing else runs; otherwise
  the exit runs after the body on every path, as a cleanup block does.
\<close>

definition with_as ::
  "('w, 'c) py \<Rightarrow> ('c \<Rightarrow> ('w, 'b) py) \<Rightarrow> ('c \<Rightarrow> ('w, 'a) py) \<Rightarrow> ('w, 'a) py" where
  "with_as enter exit body = then_do enter (\<lambda>x. try_finally (body x) (exit x))"

section \<open>Evaluation rules\<close>

text \<open>
  Each combinator applied to a state, as a case distinction on what its first part
  does there: the rules by which a run of the script is evaluated step by step.
\<close>

lemma ret_apply [run_simps]: "ret v w = (Inr v, w)"
  by (simp add: ret_def)

lemma then_do_apply [run_simps]:
  "then_do m k w = (case m w of (Inl e, w') \<Rightarrow> (Inl e, w') | (Inr v, w') \<Rightarrow> k v w')"
  by (simp add: then_do_def)

lemma seq_apply [run_simps]:
  "seq m n w = (case m w of (Inl e, w') \<Rightarrow> (Inl e, w') | (Inr v, w') \<Rightarrow> n w')"
  by (simp add: seq_def then_do_def)

lemma try_except_apply [run_simps]:
  "try_except m h w =
     (case m w of
        (Inl e, w') \<Rightarrow> if is_Exception e then h e w' else (Inl e, w')
      | (Inr v, w') \<Rightarrow> (Inr v, w'))"
  by (simp add: try_except_def)

lemma try_finally_apply [run_simps]:
  "try_finally m f w =
     (case m w of
        (r, w') \<Rightarrow> (case f w' of (Inl e, w'') \<Rightarrow> (Inl e, w'') | (Inr _, w'') \<Rightarrow> (r, w'')))"
  by (simp add: try_finally_def)

lemma with_as_apply [run_simps]:
  "with_as enter exit body w =
     (case enter w of
        (Inl e, w') \<Rightarrow> (Inl e, w')
      | (Inr x, w') \<Rightarrow> try_finally (body x) (exit x) w')"
  by (simp add: with_as_def then_do_def)

section \<open>Laws\<close>

lemma ret_then_do [simp]: "then_do (ret v) k = k v"
  by (simp add: then_do_def ret_def)

lemma then_do_ret [simp]: "then_do m ret = m"
  by (auto simp: then_do_def ret_def fun_eq_iff split: prod.splits sum.splits)

lemma then_do_assoc:
  "then_do (then_do m k) l = then_do m (\<lambda>v. then_do (k v) l)"
  by (auto simp: then_do_def fun_eq_iff split: prod.splits sum.splits)

lemma seq_assoc: "seq (seq l m) n = seq l (seq m n)"
  by (simp add: seq_def then_do_assoc)

lemma seq_ret_unit [simp]: "seq m (ret ()) = (m :: ('w, unit) py)"
  by (auto simp: seq_def then_do_def ret_def fun_eq_iff split: prod.splits sum.splits)

lemma try_except_ret [simp]: "try_except (ret v) h = ret v"
  by (simp add: try_except_def ret_def)

text \<open>The state a cleanup block leaves is the state it reaches from where the body stopped.\<close>

lemma state_of_try_finally: "state_of (try_finally m f w) = state_of (f (state_of (m w)))"
  by (simp add: try_finally_def split: prod.splits sum.splits)

lemma outcome_of_try_finally:
  "outcome_of (try_finally m f w) =
     (case outcome_of (f (state_of (m w))) of Inl e \<Rightarrow> Inl e | Inr _ \<Rightarrow> outcome_of (m w))"
  by (simp add: try_finally_def split: prod.splits sum.splits)

lemma state_of_seq_ret [simp]: "state_of (seq m (ret v) w) = state_of (m w)"
  by (simp add: seq_apply ret_def split: prod.splits sum.splits)

section \<open>Invariants\<close>

text \<open>
  \<open>preserves P m\<close>: the statement \<open>m\<close> keeps the property \<open>P\<close> of the state, whether it
  returns or raises. Every control construct keeps what its parts keep, so an
  invariant of the operations a program is built from is an invariant of the program.
\<close>

definition preserves :: "('w \<Rightarrow> bool) \<Rightarrow> ('w, 'a) py \<Rightarrow> bool" where
  "preserves P m \<longleftrightarrow> (\<forall>w. P w \<longrightarrow> P (state_of (m w)))"

lemma preservesI: "(\<And>w. P w \<Longrightarrow> P (state_of (m w))) \<Longrightarrow> preserves P m"
  by (simp add: preserves_def)

lemma preservesD: "preserves P m \<Longrightarrow> P w \<Longrightarrow> P (state_of (m w))"
  by (simp add: preserves_def)

lemma preserves_ret [intro!, simp]: "preserves P (ret v)"
  by (simp add: preserves_def ret_def)

lemma preserves_then_do [intro!]:
  assumes "preserves P m" and "\<And>v. preserves P (k v)"
  shows "preserves P (then_do m k)"
proof (rule preservesI)
  fix w assume "P w"
  with assms(1) have "P (state_of (m w))" by (rule preservesD)
  then show "P (state_of (then_do m k w))"
    using preservesD [OF assms(2)]
    by (cases rule: comp_cases [of m w]) (auto simp: then_do_def)
qed

lemma preserves_seq [intro!]: "preserves P m \<Longrightarrow> preserves P n \<Longrightarrow> preserves P (seq m n)"
  unfolding seq_def by (rule preserves_then_do)

lemma preserves_seq_ret: "preserves P (seq m (ret ())) \<Longrightarrow> preserves P m"
  by (simp add: preserves_def)

lemma preserves_try_except [intro!]:
  assumes "preserves P m" and "\<And>e. preserves P (h e)"
  shows "preserves P (try_except m h)"
proof (rule preservesI)
  fix w assume "P w"
  with assms(1) have "P (state_of (m w))" by (rule preservesD)
  then show "P (state_of (try_except m h w))"
    using preservesD [OF assms(2)]
    by (cases rule: comp_cases [of m w]) (auto simp: try_except_def)
qed

lemma preserves_try_finally [intro!]:
  assumes "preserves P m" and "preserves P f"
  shows "preserves P (try_finally m f)"
  using assms by (simp add: preserves_def state_of_try_finally)

lemma preserves_with_as [intro!]:
  assumes "preserves P enter" and "\<And>x. preserves P (exit x)" and "\<And>x. preserves P (body x)"
  shows "preserves P (with_as enter exit body)"
  unfolding with_as_def using assms by (intro preserves_then_do preserves_try_finally)

end
