(* ===== verification/Playwright_API.thy ===== *)
theory Playwright_API
  imports Py_Control
begin

text \<open>
  The interface between \<^verbatim>\<open>src/verify_debounce.py\<close> and everything it drives: the
  objects it holds (the Playwright driver, the browser, the page), one operation per
  external call it makes, over any type \<open>'w\<close> of world states, and the datatype of
  those calls. The script is a client of this interface; the simulated world of
  theory \<open>Browser_World\<close> is one implementation of it. \<open>traced\<close> wraps any
  implementation so that it records each call, before it is answered, in a trace kept
  beside the world; \<open>erases\<close> relates a computation over the traced world to the one
  it records, and is kept by every control construct.
\<close>

section \<open>Handles and operations\<close>

datatype playwright = Playwright nat

datatype browser = Browser nat

datatype page = Page nat

record 'w playwright_api =
  sync_playwright :: "('w, playwright) py"
  sync_playwright_exit :: "playwright \<Rightarrow> ('w, unit) py"
  launch :: "playwright \<Rightarrow> bool \<Rightarrow> ('w, browser) py"
  new_page :: "browser \<Rightarrow> ('w, page) py"
  close :: "browser \<Rightarrow> ('w, unit) py"
  goto :: "page \<Rightarrow> string \<Rightarrow> ('w, unit) py"
  wait_for_selector :: "page \<Rightarrow> string \<Rightarrow> ('w, unit) py"
  fill :: "page \<Rightarrow> string \<Rightarrow> string \<Rightarrow> ('w, unit) py"
  wait_for_timeout :: "page \<Rightarrow> nat \<Rightarrow> ('w, unit) py"
  screenshot :: "page \<Rightarrow> string \<Rightarrow> ('w, unit) py"
  print :: "string \<Rightarrow> ('w, unit) py"

datatype call =
    Enter
  | Exit playwright
  | Launch playwright bool
  | NewPage browser
  | Close browser
  | Goto page string
  | WaitForSelector page string
  | Fill page string string
  | WaitForTimeout page nat
  | Screenshot page string
  | Print string

section \<open>Recording calls\<close>

type_synonym trace = "call list"

definition logged :: "call \<Rightarrow> ('w, 'a) py \<Rightarrow> ('w \<times> trace, 'a) py" where
  "logged c m = (\<lambda>(w, tr). case m w of (r, w') \<Rightarrow> (r, (w', tr @ [c])))"

definition traced :: "'w playwright_api \<Rightarrow> ('w \<times> trace) playwright_api" where
  "traced api =
     \<lparr> sync_playwright = logged Enter (sync_playwright api),
       sync_playwright_exit = (\<lambda>p. logged (Exit p) (sync_playwright_exit api p)),
       launch = (\<lambda>p h. logged (Launch p h) (launch api p h)),
       new_page = (\<lambda>b. logged (NewPage b) (new_page api b)),
       close = (\<lambda>b. logged (Close b) (close api b)),
       goto = (\<lambda>g u. logged (Goto g u) (goto api g u)),
       wait_for_selector = (\<lambda>g s. logged (WaitForSelector g s) (wait_for_selector api g s)),
       fill = (\<lambda>g s v. logged (Fill g s v) (fill api g s v)),
       wait_for_timeout = (\<lambda>g n. logged (WaitForTimeout g n) (wait_for_timeout api g n)),
       screenshot = (\<lambda>g f. logged (Screenshot g f) (screenshot api g f)),
       print = (\<lambda>s. logged (Print s) (print api s)) \<rparr>"

abbreviation trace_of :: "('e, 'a) outcome \<times> 'w \<times> trace \<Rightarrow> trace" where
  "trace_of x \<equiv> snd (snd x)"

abbreviation world_of :: "('e, 'a) outcome \<times> 'w \<times> trace \<Rightarrow> 'w" where
  "world_of x \<equiv> fst (snd x)"

lemma logged_apply [run_simps]:
  "logged c m (w, tr) = (outcome_of (m w), (state_of (m w), tr @ [c]))"
  by (simp add: logged_def split: prod.splits)

lemma traced_simps [api_simps]:
  "sync_playwright (traced api) = logged Enter (sync_playwright api)"
  "sync_playwright_exit (traced api) p = logged (Exit p) (sync_playwright_exit api p)"
  "launch (traced api) p h = logged (Launch p h) (launch api p h)"
  "new_page (traced api) b = logged (NewPage b) (new_page api b)"
  "close (traced api) b = logged (Close b) (close api b)"
  "goto (traced api) g u = logged (Goto g u) (goto api g u)"
  "wait_for_selector (traced api) g s = logged (WaitForSelector g s) (wait_for_selector api g s)"
  "fill (traced api) g s v = logged (Fill g s v) (fill api g s v)"
  "wait_for_timeout (traced api) g n = logged (WaitForTimeout g n) (wait_for_timeout api g n)"
  "screenshot (traced api) g f = logged (Screenshot g f) (screenshot api g f)"
  "print (traced api) s = logged (Print s) (print api s)"
  by (simp_all add: traced_def)

section \<open>Erasing the trace\<close>

text \<open>
  \<open>erases m' m\<close>: run from any world and any trace, \<open>m'\<close> has the outcome of \<open>m\<close>,
  leaves the world \<open>m\<close> leaves, and only appends to the trace.
\<close>

definition erases :: "('w \<times> trace, 'a) py \<Rightarrow> ('w, 'a) py \<Rightarrow> bool" where
  "erases m' m =
     (\<forall>w tr. outcome_of (m' (w, tr)) = outcome_of (m w) \<and>
             world_of (m' (w, tr)) = state_of (m w) \<and>
             prefix tr (trace_of (m' (w, tr))))"

lemma erasesI:
  assumes "\<And>w tr. outcome_of (m' (w, tr)) = outcome_of (m w)"
    and "\<And>w tr. world_of (m' (w, tr)) = state_of (m w)"
    and "\<And>w tr. prefix tr (trace_of (m' (w, tr)))"
  shows "erases m' m"
  using assms by (simp add: erases_def)

lemma erasesD:
  assumes "erases m' m"
  shows "outcome_of (m' (w, tr)) = outcome_of (m w)"
    and "world_of (m' (w, tr)) = state_of (m w)"
    and "prefix tr (trace_of (m' (w, tr)))"
  using assms by (simp_all add: erases_def)

lemma erases_run:
  assumes "erases m' m"
  obtains t where "m' (w, tr) = (outcome_of (m w), (state_of (m w), tr @ t))"
proof -
  from erasesD(3) [OF assms, of tr w] obtain t where "trace_of (m' (w, tr)) = tr @ t"
    by (auto simp: prefix_def)
  with erasesD(1,2) [OF assms, of w tr] have "m' (w, tr) = (outcome_of (m w), (state_of (m w), tr @ t))"
    by (metis prod.collapse)
  then show thesis by (rule that)
qed

lemma erases_logged [intro!, simp]: "erases (logged c m) m"
  by (simp add: erases_def logged_apply)

lemma erases_ret [intro!, simp]: "erases (ret v) (ret v)"
  by (simp add: erases_def ret_def)

lemma erases_then_do [intro!]:
  assumes m: "erases m' m" and k: "\<And>v. erases (k' v) (k v)"
  shows "erases (then_do m' k') (then_do m k)"
proof (rule erasesI)
  fix w tr
  obtain t where run: "m' (w, tr) = (outcome_of (m w), (state_of (m w), tr @ t))"
    using m by (rule erases_run)
  show "outcome_of (then_do m' k' (w, tr)) = outcome_of (then_do m k w)"
    using run erasesD(1) [OF k]
    by (cases "m w" rule: prod.exhaust; cases "outcome_of (m w)") (auto simp: then_do_def)
  show "world_of (then_do m' k' (w, tr)) = state_of (then_do m k w)"
    using run erasesD(2) [OF k]
    by (cases "m w" rule: prod.exhaust; cases "outcome_of (m w)") (auto simp: then_do_def)
  show "prefix tr (trace_of (then_do m' k' (w, tr)))"
    using run erasesD(3) [OF k, of "tr @ t"]
    by (cases "m w" rule: prod.exhaust; cases "outcome_of (m w)")
      (auto simp: then_do_def dest: append_prefixD)
qed

lemma erases_seq [intro!]:
  "erases m' m \<Longrightarrow> erases n' n \<Longrightarrow> erases (seq m' n') (seq m n)"
  unfolding seq_def by (rule erases_then_do)

lemma erases_try_except [intro!]:
  assumes m: "erases m' m" and h: "\<And>e. erases (h' e) (h e)"
  shows "erases (try_except m' h') (try_except m h)"
proof (rule erasesI)
  fix w tr
  obtain t where run: "m' (w, tr) = (outcome_of (m w), (state_of (m w), tr @ t))"
    using m by (rule erases_run)
  show "outcome_of (try_except m' h' (w, tr)) = outcome_of (try_except m h w)"
    using run erasesD(1) [OF h]
    by (cases "m w" rule: prod.exhaust; cases "outcome_of (m w)") (auto simp: try_except_def)
  show "world_of (try_except m' h' (w, tr)) = state_of (try_except m h w)"
    using run erasesD(2) [OF h]
    by (cases "m w" rule: prod.exhaust; cases "outcome_of (m w)") (auto simp: try_except_def)
  show "prefix tr (trace_of (try_except m' h' (w, tr)))"
    using run erasesD(3) [OF h, of "tr @ t"]
    by (cases "m w" rule: prod.exhaust; cases "outcome_of (m w)")
      (auto simp: try_except_def dest: append_prefixD)
qed

lemma erases_try_finally [intro!]:
  assumes m: "erases m' m" and f: "erases f' f"
  shows "erases (try_finally m' f') (try_finally m f)"
proof (rule erasesI)
  fix w tr
  obtain t where run: "m' (w, tr) = (outcome_of (m w), (state_of (m w), tr @ t))"
    using m by (rule erases_run)
  obtain u where fin: "f' (state_of (m w), tr @ t) =
      (outcome_of (f (state_of (m w))), (state_of (f (state_of (m w))), (tr @ t) @ u))"
    using f by (rule erases_run)
  show "outcome_of (try_finally m' f' (w, tr)) = outcome_of (try_finally m f w)"
    using run fin by (simp add: try_finally_def split: prod.splits sum.splits)
  show "world_of (try_finally m' f' (w, tr)) = state_of (try_finally m f w)"
    using run fin by (simp add: try_finally_def split: prod.splits sum.splits)
  show "prefix tr (trace_of (try_finally m' f' (w, tr)))"
    using run fin by (simp add: try_finally_def split: prod.splits sum.splits)
qed

lemma erases_with_as [intro!]:
  assumes "erases enter' enter" and "\<And>x. erases (exit' x) (exit x)"
    and "\<And>x. erases (body' x) (body x)"
  shows "erases (with_as enter' exit' body') (with_as enter exit body)"
  unfolding with_as_def using assms by (intro erases_then_do erases_try_finally)

section \<open>Lists of calls\<close>

text \<open>
  \<open>perform\<close> makes one call through an interface and drops what it returns;
  \<open>run_calls\<close> makes the calls of a list in order and stops at the first that
  raises; \<open>attempted\<close> counts the calls of the list that are made.
\<close>

fun perform :: "'w playwright_api \<Rightarrow> call \<Rightarrow> ('w, unit) py" where
  "perform api Enter = seq (sync_playwright api) (ret ())"
| "perform api (Exit p) = sync_playwright_exit api p"
| "perform api (Launch p h) = seq (launch api p h) (ret ())"
| "perform api (NewPage b) = seq (new_page api b) (ret ())"
| "perform api (Close b) = close api b"
| "perform api (Goto g u) = goto api g u"
| "perform api (WaitForSelector g s) = wait_for_selector api g s"
| "perform api (Fill g s v) = fill api g s v"
| "perform api (WaitForTimeout g n) = wait_for_timeout api g n"
| "perform api (Screenshot g f) = screenshot api g f"
| "perform api (Print s) = print api s"

fun run_calls :: "'w playwright_api \<Rightarrow> call list \<Rightarrow> ('w, unit) py" where
  "run_calls api [] = ret ()"
| "run_calls api (c # cs) = seq (perform api c) (run_calls api cs)"

fun attempted :: "'w playwright_api \<Rightarrow> call list \<Rightarrow> 'w \<Rightarrow> nat" where
  "attempted api [] w = 0"
| "attempted api (c # cs) w =
     (case perform api c w of
        (Inl e, w') \<Rightarrow> 1
      | (Inr _, w') \<Rightarrow> Suc (attempted api cs w'))"

lemma perform_traced: "perform (traced api) c = logged c (perform api c)"
  by (cases c)
    (auto simp: api_simps run_simps logged_def fun_eq_iff split: prod.splits sum.splits)

lemma attempted_le_length: "attempted api cs w \<le> length cs"
  by (induction cs arbitrary: w) (auto split: prod.splits sum.splits)

lemma attempted_pos: "cs \<noteq> [] \<Longrightarrow> 0 < attempted api cs w"
  by (cases cs) (auto split: prod.splits sum.splits)

lemma run_calls_returned_attempted:
  "returned (outcome_of (run_calls api cs w)) \<Longrightarrow> attempted api cs w = length cs"
  by (induction cs arbitrary: w) (auto simp: run_simps split: prod.splits sum.splits)

lemma run_calls_append:
  "run_calls api (cs @ ds) = seq (run_calls api cs) (run_calls api ds)"
  by (induction cs) (auto simp: run_simps fun_eq_iff split: prod.splits sum.splits)

text \<open>
  Under a traced interface a list of calls has the outcome and the world of the plain
  run, and appends exactly the calls it attempted.
\<close>

lemma run_calls_traced:
  "run_calls (traced api) cs (w, tr) =
     (outcome_of (run_calls api cs w),
      (state_of (run_calls api cs w), tr @ take (attempted api cs w) cs))"
proof (induction cs arbitrary: w tr)
  case Nil
  show ?case by (simp add: run_simps)
next
  case (Cons c cs)
  show ?case
  proof (cases rule: comp_cases [of "perform api c" w])
    case (Raised e w')
    then show ?thesis by (simp add: run_simps perform_traced)
  next
    case (Returned v w')
    then show ?thesis by (simp add: run_simps perform_traced Cons.IH)
  qed
qed

text \<open>
  Where a list of calls stops: a call that raises after the calls before it returned
  ends the run with its exception, in the state it left, as the last call attempted;
  and a run that raised stopped at such a call.
\<close>

lemma run_calls_raise_at:
  assumes "i < length cs" and "run_calls api (take i cs) w = (Inr (), w1)"
    and "perform api (cs ! i) w1 = (Inl e, w2)"
  shows "run_calls api cs w = (Inl e, w2) \<and> attempted api cs w = Suc i"
  using assms
proof (induction cs arbitrary: i w)
  case Nil
  then show ?case by simp
next
  case (Cons c cs)
  show ?case
  proof (cases i)
    case 0
    with Cons.prems show ?thesis by (simp add: run_simps)
  next
    case (Suc j)
    with Cons.prems obtain w' where c: "perform api c w = (Inr (), w')"
      and rest: "run_calls api (take j cs) w' = (Inr (), w1)"
      by (auto simp: run_simps split: prod.splits sum.splits)
    from Suc Cons.prems have "j < length cs" "perform api (cs ! j) w1 = (Inl e, w2)"
      by simp_all
    from Cons.IH [OF this(1) rest this(2)] c Suc show ?thesis by (simp add: run_simps)
  qed
qed

lemma run_calls_raised_at:
  assumes "run_calls api cs w = (Inl e, w')"
  shows "\<exists>i w1. i < length cs \<and> run_calls api (take i cs) w = (Inr (), w1) \<and>
           perform api (cs ! i) w1 = (Inl e, w') \<and> attempted api cs w = Suc i"
  using assms
proof (induction cs arbitrary: w)
  case Nil
  then show ?case by (simp add: run_simps)
next
  case (Cons c cs)
  show ?case
  proof (cases rule: comp_cases [of "perform api c" w])
    case (Raised e' w'')
    with Cons.prems have "e' = e" "w'' = w'" by (simp_all add: run_simps)
    with Raised show ?thesis by (intro exI [of _ 0]) (simp add: run_simps)
  next
    case (Returned v w'')
    with Cons.prems have "run_calls api cs w'' = (Inl e, w')" by (simp add: run_simps)
    from Cons.IH [OF this] obtain i w1 where "i < length cs"
      "run_calls api (take i cs) w'' = (Inr (), w1)" "perform api (cs ! i) w1 = (Inl e, w')"
      "attempted api cs w'' = Suc i" by blast
    with Returned show ?thesis
      by (intro exI [of _ "Suc i"] exI [of _ w1]) (simp add: run_simps)
  qed
qed

text \<open>
  An interface keeps a property of the world when each of its operations does; then
  so does every one of its operations taken singly, with the value it returns.
\<close>

definition api_preserves :: "('w \<Rightarrow> bool) \<Rightarrow> 'w playwright_api \<Rightarrow> bool" where
  "api_preserves P api \<longleftrightarrow> (\<forall>c. preserves P (perform api c))"

lemma api_preservesD:
  assumes "api_preserves P api"
  shows "preserves P (sync_playwright api)" "preserves P (sync_playwright_exit api p)"
    "preserves P (launch api p h)" "preserves P (new_page api b)" "preserves P (close api b)"
    "preserves P (goto api g u)" "preserves P (wait_for_selector api g s)"
    "preserves P (fill api g s v)" "preserves P (wait_for_timeout api g n)"
    "preserves P (screenshot api g f)" "preserves P (print api s)"
  using assms [unfolded api_preserves_def, THEN spec, of Enter]
    assms [unfolded api_preserves_def, THEN spec, of "Exit p"]
    assms [unfolded api_preserves_def, THEN spec, of "Launch p h"]
    assms [unfolded api_preserves_def, THEN spec, of "NewPage b"]
    assms [unfolded api_preserves_def, THEN spec, of "Close b"]
    assms [unfolded api_preserves_def, THEN spec, of "Goto g u"]
    assms [unfolded api_preserves_def, THEN spec, of "WaitForSelector g s"]
    assms [unfolded api_preserves_def, THEN spec, of "Fill g s v"]
    assms [unfolded api_preserves_def, THEN spec, of "WaitForTimeout g n"]
    assms [unfolded api_preserves_def, THEN spec, of "Screenshot g f"]
    assms [unfolded api_preserves_def, THEN spec, of "Print s"]
  by (simp_all add: preserves_seq_ret)

lemma preserves_run_calls: "api_preserves P api \<Longrightarrow> preserves P (run_calls api cs)"
  by (induction cs) (auto simp: api_preserves_def)

text \<open>A call of the list is attempted only when every call before it returned.\<close>

lemma attempted_returned_before:
  "i < attempted api cs w \<Longrightarrow> returned (outcome_of (run_calls api (take i cs) w))"
proof (induction cs arbitrary: i w)
  case Nil
  then show ?case by simp
next
  case (Cons c cs)
  show ?case
  proof (cases i)
    case 0
    then show ?thesis by (simp add: run_simps)
  next
    case (Suc j)
    with Cons.prems Cons.IH [of j] show ?thesis
      by (auto simp: run_simps split: prod.splits sum.splits)
  qed
qed

end
