(* ===== verification/Fault_Injection.thy ===== *)
theory Fault_Injection
  imports Playwright_API
begin

text \<open>
  An implementation of the interface for injecting failures: a table says which calls
  raise and what they raise, every other call returns (a handle numbered 0 where the
  call returns one), and the world is the number of calls answered so far. It gives
  the theorems about the script a concrete run for every path through it.
\<close>

type_synonym faults = "call \<rightharpoonup> exn"

definition answer :: "faults \<Rightarrow> call \<Rightarrow> 'a \<Rightarrow> (nat, 'a) py" where
  "answer fs c v = (\<lambda>n. case fs c of Some e \<Rightarrow> (Inl e, Suc n) | None \<Rightarrow> (Inr v, Suc n))"

definition fault_api :: "faults \<Rightarrow> nat playwright_api" where
  "fault_api fs =
     \<lparr> sync_playwright = answer fs Enter (Playwright 0),
       sync_playwright_exit = (\<lambda>p. answer fs (Exit p) ()),
       launch = (\<lambda>p h. answer fs (Launch p h) (Browser 0)),
       new_page = (\<lambda>b. answer fs (NewPage b) (Page 0)),
       close = (\<lambda>b. answer fs (Close b) ()),
       goto = (\<lambda>g u. answer fs (Goto g u) ()),
       wait_for_selector = (\<lambda>g s. answer fs (WaitForSelector g s) ()),
       fill = (\<lambda>g s v. answer fs (Fill g s v) ()),
       wait_for_timeout = (\<lambda>g n. answer fs (WaitForTimeout g n) ()),
       screenshot = (\<lambda>g f. answer fs (Screenshot g f) ()),
       print = (\<lambda>s. answer fs (Print s) ()) \<rparr>"

definition no_faults :: faults where
  "no_faults = Map.empty"

definition fault_at :: "call \<Rightarrow> exn \<Rightarrow> faults" where
  "fault_at c e = Map.empty(c \<mapsto> e)"

lemma answer_apply [run_simps]:
  "answer fs c v n = (case fs c of Some e \<Rightarrow> (Inl e, Suc n) | None \<Rightarrow> (Inr v, Suc n))"
  by (simp add: answer_def)

lemma fault_api_simps [api_simps]:
  "sync_playwright (fault_api fs) = answer fs Enter (Playwright 0)"
  "sync_playwright_exit (fault_api fs) p = answer fs (Exit p) ()"
  "launch (fault_api fs) p h = answer fs (Launch p h) (Browser 0)"
  "new_page (fault_api fs) b = answer fs (NewPage b) (Page 0)"
  "close (fault_api fs) b = answer fs (Close b) ()"
  "goto (fault_api fs) g u = answer fs (Goto g u) ()"
  "wait_for_selector (fault_api fs) g s = answer fs (WaitForSelector g s) ()"
  "fill (fault_api fs) g s v = answer fs (Fill g s v) ()"
  "wait_for_timeout (fault_api fs) g n = answer fs (WaitForTimeout g n) ()"
  "screenshot (fault_api fs) g f = answer fs (Screenshot g f) ()"
  "print (fault_api fs) s = answer fs (Print s) ()"
  by (simp_all add: fault_api_def)

lemma no_faults_apply [simp]: "no_faults c = None"
  by (simp add: no_faults_def)

lemma fault_at_apply [simp]: "fault_at c e c' = (if c' = c then Some e else None)"
  by (simp add: fault_at_def)

text \<open>Whatever the table, a call answered through this implementation is counted once.\<close>

lemma perform_fault_api:
  "perform (fault_api fs) c n =
     (case fs c of Some e \<Rightarrow> (Inl e, Suc n) | None \<Rightarrow> (Inr (), Suc n))"
  by (cases c) (simp_all add: api_simps run_simps split: option.splits)

lemma state_of_perform_fault_api [simp]: "state_of (perform (fault_api fs) c n) = Suc n"
  by (simp add: perform_fault_api split: option.splits)

end
