(* ===== verification/Verifier.thy ===== *)
theory Verifier
  imports Fault_Injection
begin

text \<open>
  \<^verbatim>\<open>verify_app(page)\<close> of \<^verbatim>\<open>src/verify_debounce.py\<close>: seven calls in a fixed order, six
  on the page and one on the console, each made only when the one before returned.
  \<open>verify_app\<close> is the translation of the lines. \<open>verify_steps\<close> is not: it is the
  specification of the order, the seven calls as a list, which the function is
  compared with. The theorems hold for every implementation of the interface: they
  are about what the function calls, in which order, and what it does when a call
  raises.
\<close>

section \<open>The function\<close>

definition verify_app :: "'w playwright_api \<Rightarrow> page \<Rightarrow> ('w, unit) py" where
  "verify_app api page =
     seq (goto api page ''http://localhost:3000'')
    (seq (wait_for_selector api page ''#maxPoints'')
    (seq (fill api page ''#examTitle'' ''Debounce Test Exam'')
    (seq (fill api page ''#maxPoints'' ''100'')
    (seq (wait_for_timeout api page 1000)
    (seq (screenshot api page ''verification.png'')
         (print api ''Screenshot taken''))))))"

definition verify_steps :: "page \<Rightarrow> call list" where
  "verify_steps page =
     [Goto page ''http://localhost:3000'',
      WaitForSelector page ''#maxPoints'',
      Fill page ''#examTitle'' ''Debounce Test Exam'',
      Fill page ''#maxPoints'' ''100'',
      WaitForTimeout page 1000,
      Screenshot page ''verification.png'',
      Print ''Screenshot taken'']"

section \<open>Facts about the list of steps\<close>

lemma length_verify_steps [simp]: "length (verify_steps g) = 7"
  by (simp add: verify_steps_def)

lemma verify_steps_not_Nil [simp]: "verify_steps g \<noteq> []"
  by (simp add: verify_steps_def)

lemma lifecycle_notin_verify_steps [simp]:
  "Enter \<notin> set (verify_steps g)" "Exit p \<notin> set (verify_steps g)"
  "Launch p h \<notin> set (verify_steps g)" "NewPage b \<notin> set (verify_steps g)"
  "Close b \<notin> set (verify_steps g)"
  by (simp_all add: verify_steps_def)

lemma Print_in_verify_steps [simp]:
  "Print s \<in> set (verify_steps g) \<longleftrightarrow> s = ''Screenshot taken''"
  by (auto simp: verify_steps_def)

lemma attempted_verify_steps_bounds:
  "1 \<le> attempted api (verify_steps g) w" "attempted api (verify_steps g) w \<le> 7"
  using attempted_pos [of "verify_steps g" api w] attempted_le_length [of api "verify_steps g" w]
  by simp_all

section \<open>The function against its list of steps\<close>

text \<open>
  The function is the run of the list: this links the translation to its
  specification, and the theorems below are stated against the list.
\<close>

lemma verify_app_unfold: "verify_app api g = run_calls api (verify_steps g)"
  by (simp add: verify_app_def verify_steps_def)

lemma preserves_verify_app: "api_preserves P api \<Longrightarrow> preserves P (verify_app api g)"
  by (simp add: verify_app_unfold preserves_run_calls)

lemma verify_app_traced:
  "verify_app (traced api) g (w, tr) =
     (outcome_of (verify_app api g w),
      (state_of (verify_app api g w),
       tr @ take (attempted api (verify_steps g) w) (verify_steps g)))"
  by (simp only: verify_app_unfold run_calls_traced)

text \<open>
  C12. The calls \<open>verify_app\<close> makes are a prefix of its seven steps, in their order:
  at least the navigation, at most all seven, and no call twice or out of turn.
\<close>

theorem verify_app_calls:
  "trace_of (verify_app (traced api) g (w, tr)) =
     tr @ take (attempted api (verify_steps g) w) (verify_steps g)
   \<and> 1 \<le> attempted api (verify_steps g) w \<and> attempted api (verify_steps g) w \<le> 7"
  using attempted_verify_steps_bounds [of api g w] by (simp add: verify_app_traced)

section \<open>Failure of a step\<close>

text \<open>
  C5. Fail fast, no retry: when the steps before step \<open>i\<close> returned and step \<open>i\<close>
  raises, \<open>verify_app\<close> raises that exception in the state the step left, and that
  step is the last call it makes.
\<close>

theorem verify_app_fail_fast:
  assumes "i < 7" and "run_calls api (take i (verify_steps g)) w = (Inr (), w1)"
    and "perform api (verify_steps g ! i) w1 = (Inl e, w2)"
  shows "verify_app api g w = (Inl e, w2) \<and>
         trace_of (verify_app (traced api) g (w, tr)) = tr @ take (Suc i) (verify_steps g)"
  using run_calls_raise_at [of i "verify_steps g" api w w1 e w2] assms
  by (simp add: run_calls_traced verify_app_unfold)

theorem verify_app_fail_fast_witness:
  "verify_app (fault_api (fault_at (Fill (Page 0) ''#examTitle'' ''Debounce Test Exam'')
       (Exn ElementInteractionError ''no such element''))) (Page 0) 0
     = (Inl (Exn ElementInteractionError ''no such element''), 3)
   \<and> trace_of (verify_app (traced (fault_api
         (fault_at (Fill (Page 0) ''#examTitle'' ''Debounce Test Exam'')
            (Exn ElementInteractionError ''no such element'')))) (Page 0) (0, []))
     = [Goto (Page 0) ''http://localhost:3000'', WaitForSelector (Page 0) ''#maxPoints'',
        Fill (Page 0) ''#examTitle'' ''Debounce Test Exam'']"
  using verify_app_fail_fast [of 2
      "fault_api (fault_at (Fill (Page 0) ''#examTitle'' ''Debounce Test Exam'')
         (Exn ElementInteractionError ''no such element''))"
      "Page 0" 0 2 "Exn ElementInteractionError ''no such element''" 3 "[]"]
  by (simp add: verify_steps_def api_simps run_simps)

text \<open>
  C13. Every exception of \<open>verify_app\<close> comes from one of its seven calls: when it
  raises, some step raised that exception after all steps before it returned, and no
  call follows it.
\<close>

theorem verify_app_raised_step:
  assumes "verify_app api g w = (Inl e, w')"
  shows "\<exists>i w1. i < 7 \<and> run_calls api (take i (verify_steps g)) w = (Inr (), w1) \<and>
           perform api (verify_steps g ! i) w1 = (Inl e, w') \<and>
           trace_of (verify_app (traced api) g (w, tr)) = tr @ take (Suc i) (verify_steps g)"
  using run_calls_raised_at [of api "verify_steps g" w e w'] assms
  by (auto simp: run_calls_traced verify_app_unfold)

theorem verify_app_raised_step_witness:
  "\<exists>i w1. i < 7 \<and>
     run_calls (fault_api (fault_at (Goto (Page 0) ''http://localhost:3000'')
        (Exn NavigationError ''net::ERR_CONNECTION_REFUSED''))) (take i (verify_steps (Page 0))) 0
       = (Inr (), w1) \<and>
     perform (fault_api (fault_at (Goto (Page 0) ''http://localhost:3000'')
        (Exn NavigationError ''net::ERR_CONNECTION_REFUSED''))) (verify_steps (Page 0) ! i) w1
       = (Inl (Exn NavigationError ''net::ERR_CONNECTION_REFUSED''), 1) \<and>
     trace_of (verify_app (traced (fault_api (fault_at (Goto (Page 0) ''http://localhost:3000'')
        (Exn NavigationError ''net::ERR_CONNECTION_REFUSED'')))) (Page 0) (0, []))
       = [] @ take (Suc i) (verify_steps (Page 0))"
  by (rule verify_app_raised_step) (simp add: verify_app_def api_simps run_simps)

section \<open>Success and ordering\<close>

text \<open>
  C14. \<open>verify_app\<close> returns only after all seven calls were made, in order: a run
  that returned took the screenshot and printed the confirmation.
\<close>

theorem verify_app_returned_all_steps:
  assumes "returned (outcome_of (verify_app api g w))"
  shows "trace_of (verify_app (traced api) g (w, tr)) = tr @ verify_steps g"
  using run_calls_returned_attempted [of api "verify_steps g" w] assms
  by (simp add: run_calls_traced verify_app_unfold)

theorem verify_app_returned_all_steps_witness:
  "trace_of (verify_app (traced (fault_api no_faults)) (Page 0) (0, [])) = verify_steps (Page 0)"
  using verify_app_returned_all_steps [of "fault_api no_faults" "Page 0" 0 "[]"]
  by (simp add: verify_app_def api_simps run_simps)

text \<open>
  C4. The screenshot is taken only after the debounce wait: whenever \<open>verify_app\<close>
  calls \<open>screenshot\<close>, the navigation, the wait for \<^verbatim>\<open>#maxPoints\<close>, both fills
  and the wait of 1000 ms have returned, one after the other.
\<close>

theorem screenshot_only_after_wait:
  assumes "Screenshot g ''verification.png''
             \<in> set (trace_of (verify_app (traced api) g (w, [])))"
  shows "\<exists>w1 w2 w3 w4 w5.
           goto api g ''http://localhost:3000'' w = (Inr (), w1) \<and>
           wait_for_selector api g ''#maxPoints'' w1 = (Inr (), w2) \<and>
           fill api g ''#examTitle'' ''Debounce Test Exam'' w2 = (Inr (), w3) \<and>
           fill api g ''#maxPoints'' ''100'' w3 = (Inr (), w4) \<and>
           wait_for_timeout api g 1000 w4 = (Inr (), w5)"
  using assms
  by (auto simp: verify_app_def api_simps run_simps outcome_of_eq_iff
      split: prod.splits sum.splits)

theorem screenshot_only_after_wait_witness:
  "\<exists>w1 w2 w3 w4 w5.
     goto (fault_api no_faults) (Page 0) ''http://localhost:3000'' 0 = (Inr (), w1) \<and>
     wait_for_selector (fault_api no_faults) (Page 0) ''#maxPoints'' w1 = (Inr (), w2) \<and>
     fill (fault_api no_faults) (Page 0) ''#examTitle'' ''Debounce Test Exam'' w2 = (Inr (), w3) \<and>
     fill (fault_api no_faults) (Page 0) ''#maxPoints'' ''100'' w3 = (Inr (), w4) \<and>
     wait_for_timeout (fault_api no_faults) (Page 0) 1000 w4 = (Inr (), w5)"
  by (rule screenshot_only_after_wait)
    (simp add: verify_app_traced verify_app_def verify_steps_def api_simps run_simps)

end
