(* ===== verification/Main_Script.thy ===== *)
theory Main_Script
  imports Verifier
begin

text \<open>
  The main block of \<^verbatim>\<open>src/verify_debounce.py\<close> (lines 27 to 36), run as a script:
  \<open>main\<close> is the \<^verbatim>\<open>with\<close> statement around the launch of the browser and the
  opening of the page, \<open>run_page\<close> is the \<^verbatim>\<open>try ... except ... finally\<close> statement
  around \<open>verify_app\<close>, and \<open>report_error\<close> is its handler. These three are the
  translation of the lines. \<open>main_calls\<close>, with \<open>page_calls\<close> and \<open>report_calls\<close>,
  is not: it is the specification of the trace, the calls a run is to make as
  determined by the answers it gets, and \<open>main_traced\<close> proves that the script makes
  exactly these. The theorems say on which paths the browser is closed, the driver is
  stopped, an error is printed, and an exception leaves the script. They hold for
  every implementation of the interface.
\<close>

section \<open>The script\<close>

definition report_error :: "'w playwright_api \<Rightarrow> exn \<Rightarrow> ('w, unit) py" where
  "report_error api e = print api (''Error: '' @ str_exn e)"

definition run_page :: "'w playwright_api \<Rightarrow> browser \<Rightarrow> page \<Rightarrow> ('w, unit) py" where
  "run_page api browser page =
     try_finally
       (try_except (verify_app api page) (\<lambda>e. report_error api e))
       (close api browser)"

definition main :: "'w playwright_api \<Rightarrow> ('w, unit) py" where
  "main api =
     with_as (sync_playwright api) (sync_playwright_exit api) (\<lambda>p.
       then_do (launch api p True) (\<lambda>browser.
       then_do (new_page api browser) (\<lambda>page.
         run_page api browser page)))"

section \<open>The calls of a run, as a specification\<close>

definition report_calls :: "(exn, unit) outcome \<Rightarrow> call list" where
  "report_calls r =
     (case r of
        Inl e \<Rightarrow> if is_Exception e then [Print (''Error: '' @ str_exn e)] else []
      | Inr _ \<Rightarrow> [])"

definition page_calls :: "'w playwright_api \<Rightarrow> browser \<Rightarrow> page \<Rightarrow> 'w \<Rightarrow> call list" where
  "page_calls api b g w =
     take (attempted api (verify_steps g) w) (verify_steps g)
       @ report_calls (outcome_of (verify_app api g w)) @ [Close b]"

definition main_calls :: "'w playwright_api \<Rightarrow> 'w \<Rightarrow> call list" where
  "main_calls api w =
     Enter #
     (case sync_playwright api w of
        (Inl e, w1) \<Rightarrow> []
      | (Inr p, w1) \<Rightarrow>
          Launch p True #
          (case launch api p True w1 of
             (Inl e, w2) \<Rightarrow> []
           | (Inr b, w2) \<Rightarrow>
               NewPage b #
               (case new_page api b w2 of
                  (Inl e, w3) \<Rightarrow> []
                | (Inr g, w3) \<Rightarrow> page_calls api b g w3))
          @ [Exit p])"

lemma run_page_traced:
  "run_page (traced api) b g (w, tr) =
     (outcome_of (run_page api b g w),
      (state_of (run_page api b g w), tr @ page_calls api b g w))"
  by (cases rule: comp_cases [of "verify_app api g" w])
    (auto simp: run_page_def report_error_def page_calls_def report_calls_def
      verify_app_traced run_simps api_simps split: prod.splits sum.splits)

lemma main_traced:
  "main (traced api) (w, tr) =
     (outcome_of (main api w), (state_of (main api w), tr @ main_calls api w))"
  by (auto simp: main_def main_calls_def run_page_traced run_simps api_simps
      split: prod.splits sum.splits)

lemma count_list_report_calls [simp]:
  "count_list (report_calls r) Enter = 0" "count_list (report_calls r) (Exit p) = 0"
  "count_list (report_calls r) (Launch p h) = 0" "count_list (report_calls r) (NewPage b) = 0"
  "count_list (report_calls r) (Close b) = 0"
  by (auto simp: report_calls_def split: sum.splits)

lemma count_list_page_calls [simp]:
  "count_list (page_calls api b g w) Enter = 0"
  "count_list (page_calls api b g w) (Exit p) = 0"
  "count_list (page_calls api b g w) (Launch p h) = 0"
  "count_list (page_calls api b g w) (NewPage b') = 0"
  "count_list (page_calls api b g w) (Close b') = (if b' = b then 1 else 0)"
  by (simp_all add: page_calls_def)

lemma main_calls_paged:
  assumes "sync_playwright api w = (Inr p, w1)" and "launch api p True w1 = (Inr b, w2)"
    and "new_page api b w2 = (Inr g, w3)"
  shows "main_calls api w = [Enter, Launch p True, NewPage b] @ page_calls api b g w3 @ [Exit p]"
  using assms by (simp add: main_calls_def)

lemmas main_run_defs = main_def run_page_def report_error_def

text \<open>What every operation of the interface keeps, the script keeps.\<close>

lemma preserves_main: "api_preserves P api \<Longrightarrow> preserves P (main api)"
  unfolding main_run_defs
  by (intro preserves_with_as preserves_then_do preserves_try_finally preserves_try_except
      preserves_verify_app api_preservesD)

lemmas main_calls_defs = main_calls_paged page_calls_def report_calls_def

section \<open>Release of the browser and of the driver\<close>

text \<open>
  C1. Once the browser is launched and its page is open, the browser is closed exactly
  once on every path, whatever \<open>verify_app\<close> does and whatever the calls answer: the
  close is the last call but one of the run, followed only by the exit of the driver.
\<close>

theorem browser_closed_exactly_once:
  assumes "sync_playwright api w = (Inr p, w1)" and "launch api p True w1 = (Inr b, w2)"
    and "new_page api b w2 = (Inr g, w3)"
  shows "count_list (trace_of (main (traced api) (w, []))) (Close b) = 1 \<and>
         (\<exists>us. trace_of (main (traced api) (w, [])) = us @ [Close b, Exit p])"
  using assms
  by (simp add: main_run_defs verify_app_traced run_simps api_simps split: prod.splits sum.splits)

theorem browser_closed_exactly_once_witness:
  "count_list (trace_of (main (traced (fault_api
       (fault_at (WaitForSelector (Page 0) ''#maxPoints'') (Exn TimeoutError ''Timeout 30000ms exceeded.''))))
       (0, []))) (Close (Browser 0)) = 1 \<and>
   (\<exists>us. trace_of (main (traced (fault_api
       (fault_at (WaitForSelector (Page 0) ''#maxPoints'') (Exn TimeoutError ''Timeout 30000ms exceeded.''))))
       (0, [])) = us @ [Close (Browser 0), Exit (Playwright 0)])"
  by (rule browser_closed_exactly_once [of _ _ _ 1 _ 2 "Page 0" 3])
    (simp_all add: api_simps run_simps)

text \<open>
  C10. Once the driver is started, its exit is called exactly once and is the last call
  of the run, on every path.
\<close>

theorem driver_exit_last:
  assumes "sync_playwright api w = (Inr p, w1)"
  shows "last (trace_of (main (traced api) (w, []))) = Exit p \<and>
         count_list (trace_of (main (traced api) (w, []))) (Exit p) = 1"
  using assms by (simp add: main_traced main_calls_def split: prod.splits sum.splits)

theorem driver_exit_last_witness:
  "last (trace_of (main (traced (fault_api
       (fault_at (Launch (Playwright 0) True) (Exn OtherException ''Executable does not exist''))))
       (0, []))) = Exit (Playwright 0) \<and>
   count_list (trace_of (main (traced (fault_api
       (fault_at (Launch (Playwright 0) True) (Exn OtherException ''Executable does not exist''))))
       (0, []))) (Exit (Playwright 0)) = 1"
  by (rule driver_exit_last [of _ _ _ 1]) (simp add: api_simps run_simps)

section \<open>Exceptions of the verification\<close>

text \<open>
  C2. An exception of class \<^verbatim>\<open>Exception\<close> raised by \<open>verify_app\<close> does not leave the
  script: when the error line is printed and the cleanup calls return, \<open>main\<close> returns
  normally, and the run printed \<^verbatim>\<open>Error: \<close> followed by the exception's message
  right before it closed the browser.
\<close>

theorem caught_exception_is_reported:
  assumes "sync_playwright api w = (Inr p, w1)" and "launch api p True w1 = (Inr b, w2)"
    and "new_page api b w2 = (Inr g, w3)"
    and "verify_app api g w3 = (Inl e, w4)" and "is_Exception e"
    and "print api (''Error: '' @ str_exn e) w4 = (Inr (), w5)"
    and "close api b w5 = (Inr (), w6)" and "sync_playwright_exit api p w6 = (Inr (), w7)"
  shows "main api w = (Inr (), w7) \<and>
         (\<exists>n. n \<le> 7 \<and> trace_of (main (traced api) (w, [])) =
            [Enter, Launch p True, NewPage b] @ take n (verify_steps g)
              @ [Print (''Error: '' @ str_exn e), Close b, Exit p])"
proof
  show "main api w = (Inr (), w7)"
    using assms by (simp add: main_run_defs run_simps)
  show "\<exists>n. n \<le> 7 \<and> trace_of (main (traced api) (w, [])) =
            [Enter, Launch p True, NewPage b] @ take n (verify_steps g)
              @ [Print (''Error: '' @ str_exn e), Close b, Exit p]"
    using assms attempted_verify_steps_bounds(2) [of api g w3]
    by (intro exI [of _ "attempted api (verify_steps g) w3"])
      (simp add: main_traced main_calls_defs)
qed

theorem caught_exception_is_reported_witness:
  "main (fault_api (fault_at (Goto (Page 0) ''http://localhost:3000'')
      (Exn NavigationError ''net::ERR_CONNECTION_REFUSED''))) 0 = (Inr (), 7) \<and>
   (\<exists>n. n \<le> 7 \<and>
      trace_of (main (traced (fault_api (fault_at (Goto (Page 0) ''http://localhost:3000'')
        (Exn NavigationError ''net::ERR_CONNECTION_REFUSED'')))) (0, [])) =
        [Enter, Launch (Playwright 0) True, NewPage (Browser 0)] @ take n (verify_steps (Page 0))
          @ [Print (''Error: '' @ str_exn (Exn NavigationError ''net::ERR_CONNECTION_REFUSED'')),
             Close (Browser 0), Exit (Playwright 0)])"
  by (rule caught_exception_is_reported [of _ _ _ 1 _ 2 _ 3 _ 4 5 6])
    (simp_all add: verify_app_def api_simps run_simps)

text \<open>
  C6. Injected failures: whichever of the seven steps of \<open>verify_app\<close> is made to
  raise, and whatever exception of class \<^verbatim>\<open>Exception\<close> it raises, the run returns
  normally, prints the error line and closes the browser exactly once.
\<close>

theorem injected_failure_is_swallowed:
  assumes "c \<in> set (verify_steps (Page 0))" and "is_Exception e"
  shows "returned (outcome_of (main (fault_api (fault_at c e)) n)) \<and>
         Print (''Error: '' @ str_exn e)
           \<in> set (trace_of (main (traced (fault_api (fault_at c e))) (n, []))) \<and>
         count_list (trace_of (main (traced (fault_api (fault_at c e))) (n, [])))
           (Close (Browser 0)) = 1"
proof -
  let ?api = "fault_api (fault_at c e)"
  from assms have run: "outcome_of (main ?api n) = Inr ()"
    by (auto simp: verify_steps_def main_run_defs verify_app_def api_simps run_simps)
  from assms have calls: "Print (''Error: '' @ str_exn e) \<in> set (main_calls ?api n)"
    "count_list (main_calls ?api n) (Close (Browser 0)) = 1"
    by (auto simp: verify_steps_def main_calls_def page_calls_def report_calls_def
        verify_app_def api_simps run_simps)
  from run calls show ?thesis by (simp add: main_traced)
qed

theorem injected_failure_is_swallowed_witness:
  "returned (outcome_of (main (fault_api (fault_at (Screenshot (Page 0) ''verification.png'')
       (Exn OtherException ''disk full''))) 0)) \<and>
   Print (''Error: '' @ str_exn (Exn OtherException ''disk full''))
     \<in> set (trace_of (main (traced (fault_api (fault_at (Screenshot (Page 0) ''verification.png'')
       (Exn OtherException ''disk full'')))) (0, []))) \<and>
   count_list (trace_of (main (traced (fault_api (fault_at (Screenshot (Page 0) ''verification.png'')
       (Exn OtherException ''disk full'')))) (0, []))) (Close (Browser 0)) = 1"
  by (rule injected_failure_is_swallowed) (simp_all add: verify_steps_def)

text \<open>
  C9. An exception that is not of class \<^verbatim>\<open>Exception\<close> (an interrupt, an exit
  request) raised by \<open>verify_app\<close> is not caught: the cleanup runs, no error line is
  printed, and \<open>main\<close> raises it.
\<close>

theorem base_exception_escapes:
  assumes "sync_playwright api w = (Inr p, w1)" and "launch api p True w1 = (Inr b, w2)"
    and "new_page api b w2 = (Inr g, w3)"
    and "verify_app api g w3 = (Inl e, w4)" and "\<not> is_Exception e"
    and "close api b w4 = (Inr (), w5)" and "sync_playwright_exit api p w5 = (Inr (), w6)"
  shows "main api w = (Inl e, w6) \<and>
         Print (''Error: '' @ str_exn e) \<notin> set (trace_of (main (traced api) (w, [])))"
proof
  show "main api w = (Inl e, w6)"
    using assms by (simp add: main_run_defs run_simps)
  show "Print (''Error: '' @ str_exn e) \<notin> set (trace_of (main (traced api) (w, [])))"
    using assms by (auto simp: main_traced main_calls_defs dest!: in_set_takeD)
qed

theorem base_exception_escapes_witness:
  "main (fault_api (fault_at (WaitForTimeout (Page 0) 1000)
      (Exn BaseExceptionOnly ''KeyboardInterrupt''))) 0
     = (Inl (Exn BaseExceptionOnly ''KeyboardInterrupt''), 10) \<and>
   Print (''Error: '' @ str_exn (Exn BaseExceptionOnly ''KeyboardInterrupt''))
     \<notin> set (trace_of (main (traced (fault_api (fault_at (WaitForTimeout (Page 0) 1000)
      (Exn BaseExceptionOnly ''KeyboardInterrupt'')))) (0, [])))"
  by (rule base_exception_escapes [of _ _ _ 1 _ 2 _ 3 _ 8 9])
    (simp_all add: verify_app_def api_simps run_simps)

section \<open>Failures outside the guarded block\<close>

text \<open>
  C8. When opening the page raises, the browser that was launched is never closed by
  the script: the call is outside the \<^verbatim>\<open>try\<close> statement, so the run consists of the
  start, the launch, the failed call and the exit of the driver, and \<open>main\<close> raises.
\<close>

theorem new_page_failure_skips_close:
  assumes "sync_playwright api w = (Inr p, w1)" and "launch api p True w1 = (Inr b, w2)"
    and "new_page api b w2 = (Inl e, w3)"
  shows "trace_of (main (traced api) (w, [])) = [Enter, Launch p True, NewPage b, Exit p] \<and>
         \<not> returned (outcome_of (main api w))"
proof
  show "trace_of (main (traced api) (w, [])) = [Enter, Launch p True, NewPage b, Exit p]"
    using assms by (simp add: main_traced main_calls_def)
  show "\<not> returned (outcome_of (main api w))"
    using assms by (simp add: main_def run_simps split: prod.splits sum.splits)
qed

theorem new_page_failure_skips_close_witness:
  "trace_of (main (traced (fault_api (fault_at (NewPage (Browser 0))
      (Exn OtherException ''Target closed'')))) (0, []))
     = [Enter, Launch (Playwright 0) True, NewPage (Browser 0), Exit (Playwright 0)] \<and>
   \<not> returned (outcome_of (main (fault_api (fault_at (NewPage (Browser 0))
      (Exn OtherException ''Target closed''))) 0))"
  by (rule new_page_failure_skips_close [of _ _ _ 1 _ 2 _ 3]) (simp_all add: api_simps run_simps)

text \<open>
  C15. When the launch of the browser raises, \<open>main\<close> raises: the failure is not
  caught, no error line is printed, and only the driver is stopped.
\<close>

theorem launch_failure_propagates:
  assumes "sync_playwright api w = (Inr p, w1)" and "launch api p True w1 = (Inl e, w2)"
  shows "trace_of (main (traced api) (w, [])) = [Enter, Launch p True, Exit p] \<and>
         \<not> returned (outcome_of (main api w))"
proof
  show "trace_of (main (traced api) (w, [])) = [Enter, Launch p True, Exit p]"
    using assms by (simp add: main_traced main_calls_def)
  show "\<not> returned (outcome_of (main api w))"
    using assms by (simp add: main_def run_simps split: prod.splits sum.splits)
qed

theorem launch_failure_propagates_witness:
  "trace_of (main (traced (fault_api (fault_at (Launch (Playwright 0) True)
      (Exn OtherException ''Executable does not exist'')))) (0, []))
     = [Enter, Launch (Playwright 0) True, Exit (Playwright 0)] \<and>
   \<not> returned (outcome_of (main (fault_api (fault_at (Launch (Playwright 0) True)
      (Exn OtherException ''Executable does not exist''))) 0))"
  by (rule launch_failure_propagates [of _ _ _ 1 _ 2]) (simp_all add: api_simps run_simps)

text \<open>
  C16. When closing the browser raises after a verification that returned, \<open>main\<close>
  raises the exception of the close: a failure of the cleanup block replaces the
  success of the verification.
\<close>

theorem close_failure_propagates:
  assumes "sync_playwright api w = (Inr p, w1)" and "launch api p True w1 = (Inr b, w2)"
    and "new_page api b w2 = (Inr g, w3)"
    and "verify_app api g w3 = (Inr (), w4)"
    and "close api b w4 = (Inl e, w5)" and "sync_playwright_exit api p w5 = (Inr (), w6)"
  shows "main api w = (Inl e, w6)"
  using assms by (simp add: main_run_defs run_simps)

theorem close_failure_propagates_witness:
  "main (fault_api (fault_at (Close (Browser 0)) (Exn OtherException ''Connection closed''))) 0
     = (Inl (Exn OtherException ''Connection closed''), 12)"
  by (rule close_failure_propagates [of _ _ _ 1 _ 2 _ 3 10 _ 11])
    (simp_all add: verify_app_def api_simps run_simps)

section \<open>When the script returns\<close>

text \<open>
  C17. The runs that return: \<open>main\<close> returns normally, in the world \<open>w'\<close>, exactly
  when the driver started, the browser launched and the page opened; \<open>verify_app\<close>
  either returned or raised an exception of class \<^verbatim>\<open>Exception\<close> whose error line
  was printed; then the close of the browser returned; and then the exit of the
  driver returned leaving \<open>w'\<close>. Every other run raises: the script has no other way
  to end well, and none of these answers can be missing.
\<close>

theorem main_returns_iff:
  "main api w = (Inr (), w') \<longleftrightarrow>
     (\<exists>p w1 b w2 g w3 w5 w6.
        sync_playwright api w = (Inr p, w1) \<and> launch api p True w1 = (Inr b, w2) \<and>
        new_page api b w2 = (Inr g, w3) \<and>
        (verify_app api g w3 = (Inr (), w5) \<or>
         (\<exists>e w4. verify_app api g w3 = (Inl e, w4) \<and> is_Exception e \<and>
            print api (''Error: '' @ str_exn e) w4 = (Inr (), w5))) \<and>
        close api b w5 = (Inr (), w6) \<and> sync_playwright_exit api p w6 = (Inr (), w'))"
  by (auto simp: main_run_defs run_simps split: prod.splits sum.splits if_splits)

end
