(* ===== verification/Module_Script.thy ===== *)
theory Module_Script
  imports Main_Script
begin

text \<open>
  The file \<^verbatim>\<open>src/verify_debounce.py\<close> as a module. Its top level has three statements:
  the import of \<^verbatim>\<open>sync_playwright\<close> (line 1), the definition of \<^verbatim>\<open>verify_app\<close> (line 3),
  and the test \<^verbatim>\<open>if __name__ == "__main__"\<close> (line 27) around the main block. The
  definition binds a name and has no other effect. The import runs the imported
  module and raises when Playwright is not installed; it is a computation of its
  own, given to \<open>script\<close> as a parameter next to the interface, since it comes before
  any call of the interface. \<open>when_main\<close> is the test of line 27, and \<open>script\<close> is
  the module run under a name: as \<^verbatim>\<open>__main__\<close> when the file is run, under its own
  name when it is imported.
\<close>

section \<open>The module\<close>

definition when_main :: "string \<Rightarrow> ('w, unit) py \<Rightarrow> ('w, unit) py" where
  "when_main name block = (if name = ''__main__'' then block else ret ())"

definition script :: "string \<Rightarrow> ('w, unit) py \<Rightarrow> 'w playwright_api \<Rightarrow> ('w, unit) py" where
  "script name import_sync_playwright api =
     seq import_sync_playwright (when_main name (main api))"

text \<open>
  The import makes no call of the interface: under a traced interface it runs on the
  world and leaves the trace alone. \<open>script_calls\<close> lists the calls of the module.
\<close>

definition untraced :: "('w, 'a) py \<Rightarrow> ('w \<times> trace, 'a) py" where
  "untraced m = (\<lambda>(w, tr). case m w of (r, w') \<Rightarrow> (r, (w', tr)))"

definition script_calls ::
  "string \<Rightarrow> ('w, unit) py \<Rightarrow> 'w playwright_api \<Rightarrow> 'w \<Rightarrow> call list" where
  "script_calls name import_sync_playwright api w =
     (case import_sync_playwright w of
        (Inl e, w') \<Rightarrow> []
      | (Inr u, w') \<Rightarrow> if name = ''__main__'' then main_calls api w' else [])"

section \<open>What the module runs\<close>

lemma untraced_apply [run_simps]:
  "untraced m (w, tr) = (outcome_of (m w), (state_of (m w), tr))"
  by (simp add: untraced_def split: prod.splits)

lemma erases_untraced [intro!, simp]: "erases (untraced m) m"
  by (simp add: erases_def untraced_apply)

lemma script_traced:
  "script name (untraced imp) (traced api) (w, tr) =
     (outcome_of (script name imp api w),
      (state_of (script name imp api w), tr @ script_calls name imp api w))"
  by (cases rule: comp_cases [of imp w])
    (simp_all add: script_def when_main_def script_calls_def run_simps main_traced)

lemma script_erases: "erases (script name (untraced imp) (traced api)) (script name imp api)"
  by (simp add: erases_def script_traced)

text \<open>
  The module run under a name, read off its two definitions: when the import raises,
  the module raises that exception and makes no call; imported under another name,
  it returns after the import and makes no call; run as \<^verbatim>\<open>__main__\<close>, it has the
  outcome, the world and the calls of \<open>main\<close> from the world the import left. The
  theorems about \<open>main\<close> are therefore theorems about the file run as a script.
\<close>

lemma script_runs_main_only_as_main:
  "script name (untraced imp) (traced api) (w, []) =
     (case imp w of
        (Inl e, w') \<Rightarrow> (Inl e, (w', []))
      | (Inr u, w') \<Rightarrow>
          if name = ''__main__''
          then (outcome_of (main api w'), (state_of (main api w'), main_calls api w'))
          else (Inr (), (w', [])))"
  by (cases rule: comp_cases [of imp w])
    (simp_all add: script_def when_main_def run_simps main_traced)

end
