(* ===== verification/Session_Protocol.thy ===== *)
theory Session_Protocol
  imports Main_Script
begin

text \<open>
  The order of the script's calls as a protocol of one browser session. A \<open>phase\<close> is a
  point the main block of \<^verbatim>\<open>src/verify_debounce.py\<close> can be at, as far as the calls
  made so far tell: nothing called, the driver entered, the launch requested, the page
  requested, at least one call made on the page, the browser closed, the driver left.
  \<open>step\<close> is the transition relation, \<open>delta\<close> the same as a function that can be
  evaluated, \<open>steps\<close> and \<open>deltas\<close> their extensions to lists of calls. The phase
  \<open>Unclosed\<close> is the terminal phase in which the driver was left while a browser was
  launched and not closed. The laws of the protocol are proved by induction over the
  relation; the script is shown to follow the protocol for every implementation of
  the interface, so that the laws hold for each of its runs. The last section shows
  that a run repeats no call and has at most thirteen calls.
\<close>

section \<open>Phases and transitions\<close>

datatype phase =
    Idle
  | Entered
  | Launching playwright
  | Opening playwright browser
  | Verifying playwright browser page
  | Closed playwright
  | Exited
  | Unclosed browser

fun on_page :: "call \<Rightarrow> page option" where
  "on_page (Goto g u) = Some g"
| "on_page (WaitForSelector g s) = Some g"
| "on_page (Fill g s v) = Some g"
| "on_page (WaitForTimeout g n) = Some g"
| "on_page (Screenshot g f) = Some g"
| "on_page c = None"

fun is_new_page :: "call \<Rightarrow> bool" where
  "is_new_page (NewPage b) = True"
| "is_new_page c = False"

fun is_close :: "call \<Rightarrow> bool" where
  "is_close (Close b) = True"
| "is_close c = False"

fun is_print :: "call \<Rightarrow> bool" where
  "is_print (Print s) = True"
| "is_print c = False"

text \<open>
  The transitions. A call on a page is possible once the page was requested and until
  the browser is closed; printing is possible while the page is in use; the driver is
  left after the close, or right after a request that failed.
\<close>

inductive step :: "phase \<Rightarrow> call \<Rightarrow> phase \<Rightarrow> bool" where
  enter: "step Idle Enter Entered"
| launch: "step Entered (Launch p h) (Launching p)"
| launch_failed: "step (Launching p) (Exit p) Exited"
| new_page: "step (Launching p) (NewPage b) (Opening p b)"
| new_page_failed: "step (Opening p b) (Exit p) (Unclosed b)"
| first_use: "on_page c = Some g \<Longrightarrow> step (Opening p b) c (Verifying p b g)"
| use: "on_page c = Some g \<Longrightarrow> step (Verifying p b g) c (Verifying p b g)"
| print: "step (Verifying p b g) (Print s) (Verifying p b g)"
| close: "step (Verifying p b g) (Close b) (Closed p)"
| exit: "step (Closed p) (Exit p) Exited"

inductive steps :: "phase \<Rightarrow> call list \<Rightarrow> phase \<Rightarrow> bool" where
  stay: "steps q [] q"
| move: "step q c q' \<Longrightarrow> steps q' cs q'' \<Longrightarrow> steps q (c # cs) q''"

fun delta :: "phase \<Rightarrow> call \<Rightarrow> phase option" where
  "delta Idle c = (if c = Enter then Some Entered else None)"
| "delta Entered c = (case c of Launch p h \<Rightarrow> Some (Launching p) | _ \<Rightarrow> None)"
| "delta (Launching p) c =
     (case c of
        NewPage b \<Rightarrow> Some (Opening p b)
      | Exit p' \<Rightarrow> if p' = p then Some Exited else None
      | _ \<Rightarrow> None)"
| "delta (Opening p b) c =
     (case c of
        Exit p' \<Rightarrow> if p' = p then Some (Unclosed b) else None
      | _ \<Rightarrow> map_option (Verifying p b) (on_page c))"
| "delta (Verifying p b g) c =
     (case c of
        Print s \<Rightarrow> Some (Verifying p b g)
      | Close b' \<Rightarrow> if b' = b then Some (Closed p) else None
      | _ \<Rightarrow> if on_page c = Some g then Some (Verifying p b g) else None)"
| "delta (Closed p) c = (case c of Exit p' \<Rightarrow> if p' = p then Some Exited else None | _ \<Rightarrow> None)"
| "delta Exited c = None"
| "delta (Unclosed b) c = None"

fun deltas :: "phase \<Rightarrow> call list \<Rightarrow> phase option" where
  "deltas q [] = Some q"
| "deltas q (c # cs) = (case delta q c of None \<Rightarrow> None | Some q' \<Rightarrow> deltas q' cs)"

text \<open>
  The phases a run can end in, the phases in which a browser is launched and not
  closed, and the phases before the close.
\<close>

fun terminal :: "phase \<Rightarrow> bool" where
  "terminal Entered = True"
| "terminal Exited = True"
| "terminal (Unclosed b) = True"
| "terminal q = False"

fun holds_browser :: "phase \<Rightarrow> nat" where
  "holds_browser (Opening p b) = 1"
| "holds_browser (Verifying p b g) = 1"
| "holds_browser (Unclosed b) = 1"
| "holds_browser q = 0"

fun before_close :: "phase \<Rightarrow> bool" where
  "before_close (Closed p) = False"
| "before_close Exited = False"
| "before_close (Unclosed b) = False"
| "before_close q = True"

definition opened :: "call list \<Rightarrow> nat" where
  "opened tr = length (filter is_new_page tr)"

definition closed :: "call list \<Rightarrow> nat" where
  "closed tr = length (filter is_close tr)"

text \<open>The phase a run of the script ends in, read off the answers it gets.\<close>

definition final_phase :: "'w playwright_api \<Rightarrow> 'w \<Rightarrow> phase" where
  "final_phase api w =
     (case sync_playwright api w of
        (Inl e, w1) \<Rightarrow> Entered
      | (Inr p, w1) \<Rightarrow>
          (case launch api p True w1 of
             (Inl e, w2) \<Rightarrow> Exited
           | (Inr b, w2) \<Rightarrow>
               (case new_page api b w2 of
                  (Inl e, w3) \<Rightarrow> Unclosed b
                | (Inr g, w3) \<Rightarrow> Exited)))"

section \<open>The relation and the function\<close>

inductive_cases step_ExitedE [elim!]: "step Exited c q"
inductive_cases step_UnclosedE [elim!]: "step (Unclosed b) c q"

lemma on_page_simps [simp]:
  "on_page c = Some g \<Longrightarrow> \<not> is_new_page c" "on_page c = Some g \<Longrightarrow> \<not> is_close c"
  by (cases c; simp)+

lemma step_iff_delta: "step q c q' \<longleftrightarrow> delta q c = Some q'"
proof
  show "step q c q' \<Longrightarrow> delta q c = Some q'"
    by (induction rule: step.induct) (auto split: call.splits)
  show "delta q c = Some q' \<Longrightarrow> step q c q'"
    by (cases q; cases c) (auto intro: step.intros split: if_splits)
qed

lemma steps_iff_deltas: "steps q cs q' \<longleftrightarrow> deltas q cs = Some q'"
proof
  show "steps q cs q' \<Longrightarrow> deltas q cs = Some q'"
    by (induction rule: steps.induct) (simp_all add: step_iff_delta)
  show "deltas q cs = Some q' \<Longrightarrow> steps q cs q'"
    by (induction cs arbitrary: q)
      (auto intro: steps.intros simp: step_iff_delta split: option.splits)
qed

lemma deltas_append [simp]:
  "deltas q (xs @ ys) = (case deltas q xs of None \<Rightarrow> None | Some q' \<Rightarrow> deltas q' ys)"
  by (induction xs arbitrary: q) (simp_all split: option.splits)

lemma steps_append:
  "steps q (xs @ ys) q'' \<longleftrightarrow> (\<exists>q'. steps q xs q' \<and> steps q' ys q'')"
  by (auto simp: steps_iff_deltas split: option.splits)

lemma steps_take: "steps q cs q' \<Longrightarrow> \<exists>q1. steps q (take n cs) q1"
  using steps_append [of q "take n cs" "drop n cs" q'] by auto

lemma steps_terminal: "steps q cs q' \<Longrightarrow> q = Exited \<or> q = Unclosed b \<Longrightarrow> cs = []"
  by (induction rule: steps.induct) auto

section \<open>Laws of the protocol\<close>

text \<open>
  Along every path the browsers are accounted for: those held at the start plus the
  pages requested are those closed plus those held at the end. A phase before the
  close is reached only through phases before the close and without a close. A call
  on a page is made only while a browser is held and not closed.
\<close>

lemma opened_simps [simp]:
  "opened [] = 0" "opened (c # cs) = (if is_new_page c then 1 else 0) + opened cs"
  "opened (xs @ ys) = opened xs + opened ys"
  by (simp_all add: opened_def)

lemma closed_simps [simp]:
  "closed [] = 0" "closed (c # cs) = (if is_close c then 1 else 0) + closed cs"
  "closed (xs @ ys) = closed xs + closed ys"
  by (simp_all add: closed_def)

lemma step_balance:
  "step q c q' \<Longrightarrow>
     holds_browser q + (if is_new_page c then 1 else 0)
       = (if is_close c then 1 else 0) + holds_browser q'"
  by (induction rule: step.induct) simp_all

lemma steps_balance:
  "steps q cs q' \<Longrightarrow> holds_browser q + opened cs = closed cs + holds_browser q'"
proof (induction rule: steps.induct)
  case (move q c q' cs q'')
  then show ?case using step_balance [of q c q'] by simp
qed simp

lemma step_before_close: "step q c q' \<Longrightarrow> before_close q' \<Longrightarrow> before_close q \<and> \<not> is_close c"
  by (induction rule: step.induct) simp_all

lemma steps_before_close:
  "steps q cs q' \<Longrightarrow> before_close q' \<Longrightarrow> before_close q \<and> closed cs = 0"
  by (induction rule: steps.induct) (auto dest: step_before_close)

lemma step_on_page:
  "step q c q' \<Longrightarrow> on_page c = Some g \<Longrightarrow> holds_browser q = 1 \<and> before_close q"
  by (induction rule: step.induct) simp_all

lemma steps_on_page:
  assumes "steps Idle (xs @ c # ys) q" and "on_page c = Some g"
  shows "opened xs = 1 \<and> closed xs = 0"
proof -
  from assms(1) obtain q1 q2 where xs: "steps Idle xs q1" and c: "step q1 c q2"
    by (auto simp: steps_append elim: steps.cases)
  from step_on_page [OF c assms(2)] steps_balance [OF xs] steps_before_close [OF xs]
  show ?thesis by simp
qed

section \<open>The script follows the protocol\<close>

lemma deltas_Verifying:
  "\<forall>c\<in>set cs. on_page c = Some g \<or> is_print c \<Longrightarrow>
     deltas (Verifying p b g) cs = Some (Verifying p b g)"
  by (induction cs) (auto split: call.splits)

lemma deltas_verify_steps:
  assumes "1 \<le> n"
  shows "deltas (Opening p b) (take n (verify_steps g)) = Some (Verifying p b g)"
proof -
  from assms obtain m where n: "n = Suc m" by (cases n) simp_all
  have "\<forall>c\<in>set (take m (tl (verify_steps g))). on_page c = Some g \<or> is_print c"
    by (auto simp: verify_steps_def dest!: in_set_takeD)
  then show ?thesis by (simp add: n verify_steps_def deltas_Verifying)
qed

lemma deltas_report_calls:
  "deltas (Verifying p b g) (report_calls r) = Some (Verifying p b g)"
  by (simp add: report_calls_def split: sum.splits)

lemma deltas_page_calls: "deltas (Opening p b) (page_calls api b g w) = Some (Closed p)"
  using attempted_verify_steps_bounds(1) [of api g w]
  by (simp add: page_calls_def deltas_verify_steps deltas_report_calls)

lemma deltas_main_calls: "deltas Idle (main_calls api w) = Some (final_phase api w)"
  by (simp add: main_calls_def final_phase_def deltas_page_calls split: prod.splits sum.splits)

lemma terminal_final_phase [simp]: "terminal (final_phase api w)"
  by (simp add: final_phase_def split: prod.splits sum.splits)

lemma steps_main_calls: "steps Idle (main_calls api w) (final_phase api w)"
  by (simp add: steps_iff_deltas deltas_main_calls)

text \<open>
  C27. Every run of the script is a path of the protocol from \<open>Idle\<close> to a terminal
  phase, whatever the calls answer: the calls of \<open>main\<close> come in the order the protocol
  allows, and the run ends with the driver left, or with a driver that never started.
\<close>

theorem main_follows_protocol:
  "steps Idle (trace_of (main (traced api) (w, []))) (final_phase api w) \<and>
   terminal (final_phase api w)"
  by (simp add: main_traced steps_main_calls)

text \<open>
  At every moment of a run the calls made so far are a path of the protocol:
  every prefix of the calls of \<open>main\<close> leads from \<open>Idle\<close> to some phase.
\<close>

theorem main_prefix_follows_protocol:
  "\<exists>q. steps Idle (take n (trace_of (main (traced api) (w, [])))) q"
  using steps_take [OF steps_main_calls, of n api w] by (simp add: main_traced)

text \<open>
  C29. A run ends in the phase \<open>Unclosed b\<close>, the driver left and the browser \<open>b\<close> not
  closed, exactly when the launch returned \<open>b\<close> and opening the page raised.
\<close>

theorem main_unclosed_iff:
  "steps Idle (trace_of (main (traced api) (w, []))) (Unclosed b) \<longleftrightarrow>
     (\<exists>p w1 w2 e w3. sync_playwright api w = (Inr p, w1) \<and>
        launch api p True w1 = (Inr b, w2) \<and> new_page api b w2 = (Inl e, w3))"
  by (auto simp: main_traced steps_iff_deltas deltas_main_calls final_phase_def
      split: prod.splits sum.splits)

text \<open>
  C30. The account of a run: the number of pages the script requested is the number
  of closes it made, plus one when the run ends in \<open>Unclosed\<close>.
\<close>

theorem main_closes_what_it_opens:
  "opened (trace_of (main (traced api) (w, [])))
     = closed (trace_of (main (traced api) (w, []))) + holds_browser (final_phase api w)"
  using steps_balance [OF steps_main_calls, of api w] by (simp add: main_traced)

text \<open>
  C31. Every call the script makes on a page comes after exactly one request of a
  page and before any close of the browser.
\<close>

theorem page_used_only_while_open:
  assumes "trace_of (main (traced api) (w, [])) = xs @ c # ys" and "on_page c = Some g"
  shows "opened xs = 1 \<and> closed xs = 0"
  using steps_on_page [of xs c ys "final_phase api w" g] steps_main_calls [of api w] assms
  by (simp add: main_traced)

theorem page_used_only_while_open_witness:
  "opened [Enter, Launch (Playwright 0) True, NewPage (Browser 0)] = 1 \<and>
   closed [Enter, Launch (Playwright 0) True, NewPage (Browser 0)] = 0"
  by (rule page_used_only_while_open [of "fault_api no_faults" 0 _
        "Goto (Page 0) ''http://localhost:3000''"
        "tl (verify_steps (Page 0)) @ [Close (Browser 0), Exit (Playwright 0)]" "Page 0"])
    (simp_all add: main_traced main_calls_def page_calls_def report_calls_def verify_steps_def
      verify_app_def api_simps run_simps)

section \<open>No call is repeated\<close>

lemma distinct_verify_steps [simp]: "distinct (verify_steps g)"
  by (simp add: verify_steps_def)

lemma distinct_page_calls: "distinct (page_calls api b g w)"
  by (auto simp: page_calls_def report_calls_def dest!: in_set_takeD split: sum.splits)

lemma lifecycle_notin_page_calls [simp]:
  "Enter \<notin> set (page_calls api b g w)" "Exit p \<notin> set (page_calls api b g w)"
  "Launch p h \<notin> set (page_calls api b g w)" "NewPage b' \<notin> set (page_calls api b g w)"
  by (auto simp: page_calls_def report_calls_def dest!: in_set_takeD split: sum.splits if_splits)

lemma length_page_calls: "length (page_calls api b g w) \<le> 9"
  using attempted_verify_steps_bounds(2) [of api g w]
  by (simp add: page_calls_def report_calls_def split: sum.splits)

text \<open>
  C18. No retry and a bound on the calls: the script has no loop, so a run makes no
  call twice and between one and thirteen calls in all, whatever the calls answer.
  (That a run ends is not a theorem: every definition of the model is a total
  function, as the script has no loop to translate.)
\<close>

theorem main_never_repeats_a_call:
  "distinct (trace_of (main (traced api) (w, []))) \<and>
   1 \<le> length (trace_of (main (traced api) (w, []))) \<and>
   length (trace_of (main (traced api) (w, []))) \<le> 13"
proof -
  have "distinct (main_calls api w)"
    by (simp add: main_calls_def distinct_page_calls split: prod.splits sum.splits)
  moreover have "length (main_calls api w) \<le> 13"
    using length_page_calls [of api]
    by (auto simp: main_calls_def split: prod.splits sum.splits intro: le_trans)
  moreover have "1 \<le> length (main_calls api w)"
    by (simp add: main_calls_def)
  ultimately show ?thesis by (simp add: main_traced)
qed

end
