(* ===== verification/Session_Events.thy ===== *)
theory Session_Events
  imports Main_Script
begin

text \<open>
  The run of the script as a log of events: each call together with the answer it got.
  The trace of \<open>Playwright_API\<close> records what the script asked; the log also records what
  it was told, so that a driver that failed to start and one that started are told
  apart, and so that the handles of the script can be followed: \<^verbatim>\<open>p\<close>, \<^verbatim>\<open>browser\<close>
  and \<^verbatim>\<open>page\<close> of lines 28 to 30 of \<^verbatim>\<open>src/verify_debounce.py\<close> are values the script
  receives, and every later call names one of them. \<open>observed\<close> wraps an interface so
  that every call is logged with its answer; \<open>replay\<close> asks an interface a list of
  calls in order and gives the log; \<open>wf_log\<close> says that every call of a log names
  only handles that an earlier answer of the log gave, and that every answer is of
  the kind its call returns.
\<close>

section \<open>Events\<close>

datatype answer = Raised exn | Started playwright | Launched browser | Opened page | Returned

datatype event = Event (call_of: call) (answer_of: answer)

definition observe :: "call \<Rightarrow> ('a \<Rightarrow> answer) \<Rightarrow> ('w, 'a) py \<Rightarrow> ('w \<times> event list, 'a) py" where
  "observe c k m =
     (\<lambda>(w, evs). case m w of
        (Inl e, w') \<Rightarrow> (Inl e, (w', evs @ [Event c (Raised e)]))
      | (Inr v, w') \<Rightarrow> (Inr v, (w', evs @ [Event c (k v)])))"

definition observed :: "'w playwright_api \<Rightarrow> ('w \<times> event list) playwright_api" where
  "observed api =
     \<lparr> sync_playwright = observe Enter Started (sync_playwright api),
       sync_playwright_exit = (\<lambda>p. observe (Exit p) (\<lambda>_. Returned) (sync_playwright_exit api p)),
       launch = (\<lambda>p h. observe (Launch p h) Launched (launch api p h)),
       new_page = (\<lambda>b. observe (NewPage b) Opened (new_page api b)),
       close = (\<lambda>b. observe (Close b) (\<lambda>_. Returned) (close api b)),
       goto = (\<lambda>g u. observe (Goto g u) (\<lambda>_. Returned) (goto api g u)),
       wait_for_selector =
         (\<lambda>g s. observe (WaitForSelector g s) (\<lambda>_. Returned) (wait_for_selector api g s)),
       fill = (\<lambda>g s v. observe (Fill g s v) (\<lambda>_. Returned) (fill api g s v)),
       wait_for_timeout =
         (\<lambda>g n. observe (WaitForTimeout g n) (\<lambda>_. Returned) (wait_for_timeout api g n)),
       screenshot = (\<lambda>g f. observe (Screenshot g f) (\<lambda>_. Returned) (screenshot api g f)),
       print = (\<lambda>s. observe (Print s) (\<lambda>_. Returned) (print api s)) \<rparr>"

abbreviation events_of :: "('e, 'a) outcome \<times> 'w \<times> event list \<Rightarrow> event list" where
  "events_of x \<equiv> snd (snd x)"

text \<open>
  The answer of a single call, the log of a list of calls asked in order, and the
  world after them. A call that raises leaves the world it leaves; the list goes on,
  as the script goes on with its handler and its cleanup.
\<close>

definition reply :: "('a \<Rightarrow> answer) \<Rightarrow> ('w, 'a) py \<Rightarrow> 'w \<Rightarrow> answer" where
  "reply k m w = (case outcome_of (m w) of Inl e \<Rightarrow> Raised e | Inr v \<Rightarrow> k v)"

fun ask :: "'w playwright_api \<Rightarrow> call \<Rightarrow> 'w \<Rightarrow> answer" where
  "ask api Enter = reply Started (sync_playwright api)"
| "ask api (Exit p) = reply (\<lambda>_. Returned) (sync_playwright_exit api p)"
| "ask api (Launch p h) = reply Launched (launch api p h)"
| "ask api (NewPage b) = reply Opened (new_page api b)"
| "ask api (Close b) = reply (\<lambda>_. Returned) (close api b)"
| "ask api (Goto g u) = reply (\<lambda>_. Returned) (goto api g u)"
| "ask api (WaitForSelector g s) = reply (\<lambda>_. Returned) (wait_for_selector api g s)"
| "ask api (Fill g s v) = reply (\<lambda>_. Returned) (fill api g s v)"
| "ask api (WaitForTimeout g n) = reply (\<lambda>_. Returned) (wait_for_timeout api g n)"
| "ask api (Screenshot g f) = reply (\<lambda>_. Returned) (screenshot api g f)"
| "ask api (Print s) = reply (\<lambda>_. Returned) (print api s)"

fun replay :: "'w playwright_api \<Rightarrow> call list \<Rightarrow> 'w \<Rightarrow> event list" where
  "replay api [] w = []"
| "replay api (c # cs) w = Event c (ask api c w) # replay api cs (state_of (perform api c w))"

fun after :: "'w playwright_api \<Rightarrow> call list \<Rightarrow> 'w \<Rightarrow> 'w" where
  "after api [] w = w"
| "after api (c # cs) w = after api cs (state_of (perform api c w))"

section \<open>Handles\<close>

text \<open>
  The handles a call names, the handles an answer gives, the answers that fit a call,
  and the logs in which every call names only handles given before it.
\<close>

datatype handle = Driver_of playwright | Browser_of browser | Page_of page

fun needs :: "call \<Rightarrow> handle set" where
  "needs Enter = {}"
| "needs (Exit p) = {Driver_of p}"
| "needs (Launch p h) = {Driver_of p}"
| "needs (NewPage b) = {Browser_of b}"
| "needs (Close b) = {Browser_of b}"
| "needs (Goto g u) = {Page_of g}"
| "needs (WaitForSelector g s) = {Page_of g}"
| "needs (Fill g s v) = {Page_of g}"
| "needs (WaitForTimeout g n) = {Page_of g}"
| "needs (Screenshot g f) = {Page_of g}"
| "needs (Print s) = {}"

fun gives :: "answer \<Rightarrow> handle set" where
  "gives (Started p) = {Driver_of p}"
| "gives (Launched b) = {Browser_of b}"
| "gives (Opened g) = {Page_of g}"
| "gives a = {}"

fun fits :: "call \<Rightarrow> answer \<Rightarrow> bool" where
  "fits c (Raised e) = True"
| "fits c (Started p) = (c = Enter)"
| "fits c (Launched b) = (case c of Launch p h \<Rightarrow> True | _ \<Rightarrow> False)"
| "fits c (Opened g) = (case c of NewPage b \<Rightarrow> True | _ \<Rightarrow> False)"
| "fits c Returned =
     (case c of Enter \<Rightarrow> False | Launch p h \<Rightarrow> False | NewPage b \<Rightarrow> False | _ \<Rightarrow> True)"

fun wf_log :: "handle set \<Rightarrow> event list \<Rightarrow> bool" where
  "wf_log H [] = True"
| "wf_log H (Event c a # evs) = (needs c \<subseteq> H \<and> fits c a \<and> wf_log (H \<union> gives a) evs)"

section \<open>The log of a run\<close>

lemma observe_apply [run_simps]:
  "observe c k m (w, evs) = (outcome_of (m w), (state_of (m w), evs @ [Event c (reply k m w)]))"
  by (simp add: observe_def reply_def split: prod.splits sum.splits)

lemma observed_simps [api_simps]:
  "sync_playwright (observed api) = observe Enter Started (sync_playwright api)"
  "sync_playwright_exit (observed api) p =
     observe (Exit p) (\<lambda>_. Returned) (sync_playwright_exit api p)"
  "launch (observed api) p h = observe (Launch p h) Launched (launch api p h)"
  "new_page (observed api) b = observe (NewPage b) Opened (new_page api b)"
  "close (observed api) b = observe (Close b) (\<lambda>_. Returned) (close api b)"
  "goto (observed api) g u = observe (Goto g u) (\<lambda>_. Returned) (goto api g u)"
  "wait_for_selector (observed api) g s =
     observe (WaitForSelector g s) (\<lambda>_. Returned) (wait_for_selector api g s)"
  "fill (observed api) g s v = observe (Fill g s v) (\<lambda>_. Returned) (fill api g s v)"
  "wait_for_timeout (observed api) g n =
     observe (WaitForTimeout g n) (\<lambda>_. Returned) (wait_for_timeout api g n)"
  "screenshot (observed api) g f = observe (Screenshot g f) (\<lambda>_. Returned) (screenshot api g f)"
  "print (observed api) s = observe (Print s) (\<lambda>_. Returned) (print api s)"
  by (simp_all add: observed_def)

lemma reply_simps [simp]:
  "m w = (Inl e, w') \<Longrightarrow> reply k m w = Raised e"
  "m w = (Inr v, w') \<Longrightarrow> reply k m w = k v"
  by (simp_all add: reply_def)

lemma perform_observed:
  "perform (observed api) c (w, evs) =
     (outcome_of (perform api c w), (state_of (perform api c w), evs @ [Event c (ask api c w)]))"
  by (cases c) (auto simp: api_simps run_simps reply_def split: prod.splits sum.splits)

lemma replay_append:
  "replay api (xs @ ys) w = replay api xs w @ replay api ys (after api xs w)"
  by (induction xs arbitrary: w) simp_all

lemma after_append [simp]: "after api (xs @ ys) w = after api ys (after api xs w)"
  by (induction xs arbitrary: w) simp_all

lemma map_call_of_replay [simp]: "map call_of (replay api cs w) = cs"
  by (induction cs arbitrary: w) simp_all

lemma state_of_run_calls:
  "state_of (run_calls api cs w) = after api (take (attempted api cs w) cs) w"
  by (induction cs arbitrary: w) (auto simp: run_simps split: prod.splits sum.splits)

text \<open>
  Under an observed interface a list of calls, \<open>verify_app\<close>, the guarded block and the
  script have the outcome and the world of the plain run, and log the calls they
  make with the answers of the interface.
\<close>

lemma run_calls_observed:
  "run_calls (observed api) cs (w, evs) =
     (outcome_of (run_calls api cs w),
      (state_of (run_calls api cs w), evs @ replay api (take (attempted api cs w) cs) w))"
proof (induction cs arbitrary: w evs)
  case Nil
  show ?case by (simp add: run_simps)
next
  case (Cons c cs)
  show ?case
  proof (cases rule: comp_cases [of "perform api c" w])
    case (Raised e w')
    then show ?thesis by (simp add: run_simps perform_observed)
  next
    case (Returned v w')
    then show ?thesis by (simp add: run_simps perform_observed Cons.IH)
  qed
qed

lemma verify_app_observed:
  "verify_app (observed api) g (w, evs) =
     (outcome_of (verify_app api g w),
      (state_of (verify_app api g w),
       evs @ replay api (take (attempted api (verify_steps g) w) (verify_steps g)) w))"
  by (simp only: verify_app_unfold run_calls_observed)

lemma after_verify_steps [simp]:
  "after api (take (attempted api (verify_steps g) w) (verify_steps g)) w
     = state_of (verify_app api g w)"
  by (simp add: verify_app_unfold state_of_run_calls)

lemma after_page_calls [simp]:
  "after api (page_calls api b g w) w = state_of (run_page api b g w)"
  by (cases rule: comp_cases [of "verify_app api g" w])
    (auto simp: run_page_def report_error_def page_calls_def report_calls_def
      run_simps split: prod.splits sum.splits)

lemma run_page_observed:
  "run_page (observed api) b g (w, evs) =
     (outcome_of (run_page api b g w),
      (state_of (run_page api b g w), evs @ replay api (page_calls api b g w) w))"
  by (cases rule: comp_cases [of "verify_app api g" w])
    (auto simp: run_page_def report_error_def page_calls_def report_calls_def
      verify_app_observed replay_append run_simps api_simps split: prod.splits sum.splits)

lemma main_observed:
  "main (observed api) (w, evs) =
     (outcome_of (main api w), (state_of (main api w), evs @ replay api (main_calls api w) w))"
proof (cases rule: comp_cases [of "sync_playwright api" w])
  case (Raised e w1)
  then show ?thesis by (simp add: main_def main_calls_def run_simps api_simps)
next
  case (Returned p w1)
  note started = this
  show ?thesis
  proof (cases rule: comp_cases [of "launch api p True" w1])
    case (Raised e w2)
    with started show ?thesis
      by (simp add: main_def main_calls_def run_simps api_simps split: prod.splits sum.splits)
  next
    case (Returned b w2)
    with started show ?thesis
      by (simp add: main_def main_calls_def run_page_observed replay_append run_simps api_simps
          split: prod.splits sum.splits)
  qed
qed

section \<open>Well-formed logs\<close>

lemma fits_ask [simp]: "fits c (ask api c w)"
  by (cases c) (simp_all add: reply_def split: sum.splits)

lemma fits_Exit [simp]: "fits (Exit p) (reply (\<lambda>_. Returned) m w)"
  by (simp add: reply_def split: sum.splits)

lemma wf_log_replay: "\<forall>c\<in>set cs. needs c \<subseteq> H \<Longrightarrow> wf_log H (replay api cs w)"
proof (induction cs arbitrary: H w)
  case (Cons c cs)
  then have "\<forall>c'\<in>set cs. needs c' \<subseteq> H \<union> gives (ask api c w)" by auto
  from Cons.IH [OF this] Cons.prems show ?case by simp
qed simp

lemma needs_verify_steps: "c \<in> set (verify_steps g) \<Longrightarrow> needs c \<subseteq> {Page_of g}"
  by (auto simp: verify_steps_def)

lemma needs_page_calls:
  "c \<in> set (page_calls api b g w) \<Longrightarrow> needs c \<subseteq> {Browser_of b, Page_of g}"
  by (auto simp: page_calls_def report_calls_def dest!: in_set_takeD needs_verify_steps
      split: sum.splits if_splits)

lemma wf_log_main_calls: "wf_log {} (replay api (main_calls api w) w)"
proof (cases rule: comp_cases [of "sync_playwright api" w])
  case (Raised e w1)
  then show ?thesis by (simp add: main_calls_def)
next
  case (Returned p w1)
  show ?thesis
  proof (cases rule: comp_cases [of "launch api p True" w1])
    case (Raised e w2)
    with Returned show ?thesis by (simp add: main_calls_def)
  next
    case launched: (Returned b w2)
    show ?thesis
    proof (cases rule: comp_cases [of "new_page api b" w2])
      case (Raised e w3)
      with Returned launched show ?thesis by (simp add: main_calls_def)
    next
      case opened: (Returned g w3)
      have "wf_log {Driver_of p, Browser_of b, Page_of g}
              (replay api (page_calls api b g w3 @ [Exit p]) w3)"
        by (rule wf_log_replay) (auto dest: needs_page_calls)
      with Returned launched opened show ?thesis
        by (simp add: main_calls_def insert_commute)
    qed
  qed
qed

text \<open>
  C28. The script names only handles it was given: in the log of every run, whatever
  the calls answer, each call names only a driver, a browser or a page that an
  earlier answer of the same run gave, and each answer is of the kind its call
  returns. The calls of the log are the calls of the trace.
\<close>

theorem main_uses_only_handles_it_was_given:
  "wf_log {} (events_of (main (observed api) (w, []))) \<and>
   map call_of (events_of (main (observed api) (w, []))) = trace_of (main (traced api) (w, []))"
  by (simp add: main_observed main_traced wf_log_main_calls)

section \<open>A driver that does not start\<close>

text \<open>
  C11. When starting the driver raises, \<open>main\<close> raises that exception in the world the
  start left, and the start is the only call of the run: nothing is launched, nothing
  is printed, and the exit of the driver is not called.
\<close>

theorem start_failure_propagates:
  assumes "sync_playwright api w = (Inl e, w1)"
  shows "main api w = (Inl e, w1) \<and>
         events_of (main (observed api) (w, [])) = [Event Enter (Raised e)]"
proof
  show "main api w = (Inl e, w1)"
    using assms by (simp add: main_def run_simps)
  show "events_of (main (observed api) (w, [])) = [Event Enter (Raised e)]"
    using assms by (simp add: main_observed main_calls_def)
qed

theorem start_failure_propagates_witness:
  "main (fault_api (fault_at Enter (Exn OtherException ''Driver not found''))) 0
     = (Inl (Exn OtherException ''Driver not found''), 1) \<and>
   events_of (main (observed (fault_api (fault_at Enter (Exn OtherException ''Driver not found''))))
       (0, []))
     = [Event Enter (Raised (Exn OtherException ''Driver not found''))]"
  by (rule start_failure_propagates) (simp add: api_simps run_simps)

end
