(* ===== verification/Cleanup_Failures.thy ===== *)
theory Cleanup_Failures
  imports Session_Events
begin

text \<open>
  What the script does when its own error handling fails: the exit of the \<^verbatim>\<open>with\<close>
  statement (line 28 of \<^verbatim>\<open>src/verify_debounce.py\<close>) raises, or the \<^verbatim>\<open>print\<close> of the
  handler (line 34) raises. Neither is inside a \<^verbatim>\<open>try\<close> of its own: the exception of
  the exit leaves the script whatever happened before, and the exception of the
  handler leaves it after the cleanup block has closed the browser.
\<close>

section \<open>The last event of a run\<close>

lemma reply_Raised_iff [simp]:
  "reply (\<lambda>_. Returned) m w = Raised e \<longleftrightarrow> outcome_of (m w) = Inl e"
  by (simp add: reply_def split: sum.splits)

lemma last_replay_snoc [simp]:
  "last (replay api (cs @ [c]) w) = Event c (ask api c (after api cs w))"
  by (simp add: replay_append)

section \<open>The exit of the driver raises\<close>

text \<open>
  C33. When the exit of the driver raises, \<open>main\<close> raises that exception, whatever
  happened before: the last event of the run is the exit, and an exception it raises
  replaces the outcome of the body, be it a success, a caught error or another
  exception.
\<close>

theorem exit_failure_propagates:
  assumes "last (events_of (main (observed api) (w, []))) = Event (Exit p) (Raised e)"
  shows "outcome_of (main api w) = Inl e"
proof -
  from assms have last: "last (replay api (main_calls api w) w) = Event (Exit p) (Raised e)"
    by (simp add: main_observed)
  show ?thesis
  proof (cases rule: comp_cases [of "sync_playwright api" w])
    case (Raised e' w1)
    with last show ?thesis by (simp add: main_calls_def)
  next
    case (Returned p' w1)
    note started = this
    show ?thesis
    proof (cases rule: comp_cases [of "launch api p' True" w1])
      case (Raised e' w2)
      with started last show ?thesis
        by (auto simp: main_calls_def main_def run_simps split: prod.splits sum.splits)
    next
      case (Returned b w2)
      note launched = this
      show ?thesis
      proof (cases rule: comp_cases [of "new_page api b" w2])
        case (Raised e' w3)
        with started launched last show ?thesis
          by (auto simp: main_calls_def main_def run_simps split: prod.splits sum.splits)
      next
        case (Returned g w3)
        with started launched last show ?thesis
          by (auto simp: main_calls_paged main_def run_simps replay_append
              split: prod.splits sum.splits)
      qed
    qed
  qed
qed

theorem exit_failure_propagates_witness:
  "outcome_of (main (fault_api (fault_at (Exit (Playwright 0))
      (Exn OtherException ''Connection closed''))) 0)
     = Inl (Exn OtherException ''Connection closed'')"
  by (rule exit_failure_propagates [of _ _ "Playwright 0"])
    (simp add: main_observed main_calls_def page_calls_def report_calls_def verify_steps_def
      verify_app_def api_simps run_simps)

section \<open>The handler raises\<close>

text \<open>
  C36. When the \<^verbatim>\<open>print\<close> of the handler raises, the browser is still closed and the
  driver is still left, in that order, and \<open>main\<close> raises the exception of the
  \<^verbatim>\<open>print\<close>: the error of the verification is lost, the cleanup is not.
\<close>

theorem report_failure_still_closes:
  assumes "sync_playwright api w = (Inr p, w1)" and "launch api p True w1 = (Inr b, w2)"
    and "new_page api b w2 = (Inr g, w3)"
    and "verify_app api g w3 = (Inl e, w4)" and "is_Exception e"
    and "print api (''Error: '' @ str_exn e) w4 = (Inl e', w5)"
    and "close api b w5 = (Inr (), w6)" and "sync_playwright_exit api p w6 = (Inr (), w7)"
  shows "main api w = (Inl e', w7) \<and>
         (\<exists>n. n \<le> 7 \<and> trace_of (main (traced api) (w, [])) =
            [Enter, Launch p True, NewPage b] @ take n (verify_steps g)
              @ [Print (''Error: '' @ str_exn e), Close b, Exit p])"
proof
  show "main api w = (Inl e', w7)"
    using assms by (simp add: main_run_defs run_simps)
  show "\<exists>n. n \<le> 7 \<and> trace_of (main (traced api) (w, [])) =
            [Enter, Launch p True, NewPage b] @ take n (verify_steps g)
              @ [Print (''Error: '' @ str_exn e), Close b, Exit p]"
    using assms attempted_verify_steps_bounds(2) [of api g w3]
    by (intro exI [of _ "attempted api (verify_steps g) w3"])
      (simp add: main_traced main_calls_defs)
qed

theorem report_failure_still_closes_witness:
  "main (fault_api
      [Goto (Page 0) ''http://localhost:3000'' \<mapsto> Exn NavigationError ''refused'',
       Print ''Error: refused'' \<mapsto> Exn OtherException ''Broken pipe'']) 0
     = (Inl (Exn OtherException ''Broken pipe''), 7) \<and>
   (\<exists>n. n \<le> 7 \<and>
      trace_of (main (traced (fault_api
        [Goto (Page 0) ''http://localhost:3000'' \<mapsto> Exn NavigationError ''refused'',
         Print ''Error: refused'' \<mapsto> Exn OtherException ''Broken pipe''])) (0, [])) =
        [Enter, Launch (Playwright 0) True, NewPage (Browser 0)] @ take n (verify_steps (Page 0))
          @ [Print (''Error: '' @ str_exn (Exn NavigationError ''refused'')),
             Close (Browser 0), Exit (Playwright 0)])"
  by (rule report_failure_still_closes [of _ _ _ 1 _ 2 _ 3 _ 4 _ 5 6])
    (simp_all add: verify_app_def api_simps run_simps)

end
