(* ===== verification/Console_Report.thy ===== *)
theory Console_Report
  imports Main_Script
begin

text \<open>
  What the console tells. The script reports in one of two lines: \<^verbatim>\<open>Screenshot taken\<close>
  at the end of \<open>verify_app\<close> (line 25 of \<^verbatim>\<open>src/verify_debounce.py\<close>), or \<^verbatim>\<open>Error: \<close>
  followed by the message of the exception (line 34). \<open>console_line\<close> is the line for a
  verdict, \<open>read_line\<close> reads a line back, and \<open>printed\<close> picks the lines out of the calls
  of a run. The two lines cannot be confused, so that the last line of a run, read
  back, is the verdict of the verification.
\<close>

section \<open>Reading the console\<close>

datatype verdict = Passed | Failed string

definition verdict_of :: "(exn, unit) outcome \<Rightarrow> verdict" where
  "verdict_of r = (case r of Inl e \<Rightarrow> Failed (str_exn e) | Inr _ \<Rightarrow> Passed)"

definition console_line :: "verdict \<Rightarrow> string" where
  "console_line v = (case v of Passed \<Rightarrow> ''Screenshot taken'' | Failed m \<Rightarrow> ''Error: '' @ m)"

definition read_line :: "string \<Rightarrow> verdict option" where
  "read_line s =
     (if s = ''Screenshot taken'' then Some Passed
      else if prefix ''Error: '' s then Some (Failed (drop 7 s))
      else None)"

fun printed :: "call list \<Rightarrow> string list" where
  "printed [] = []"
| "printed (Print s # cs) = s # printed cs"
| "printed (c # cs) = printed cs"

section \<open>Lines and verdicts\<close>

lemma read_line_console_line [simp]: "read_line (console_line v) = Some v"
  by (cases v) (simp_all add: read_line_def console_line_def)

lemma console_line_read_line: "read_line s = Some v \<Longrightarrow> console_line v = s"
  by (auto simp: read_line_def console_line_def prefix_def split: if_splits)

lemma printed_append [simp]: "printed (xs @ ys) = printed xs @ printed ys"
  by (induction xs rule: printed.induct) simp_all

lemma printed_verify_steps [simp]: "printed (verify_steps g) = [''Screenshot taken'']"
  by (simp add: verify_steps_def)

text \<open>
  The guarded block prints the line of the verdict last, when the exception of the
  verification, if any, is one the handler catches.
\<close>

lemma printed_page_calls:
  assumes "verify_app api g w = (r, w')" and "\<forall>e. r = Inl e \<longrightarrow> is_Exception e"
  shows "\<exists>ls. printed (page_calls api b g w) = ls @ [console_line (verdict_of r)]"
proof (cases r)
  case (Inl e)
  with assms show ?thesis
    by (simp add: page_calls_def report_calls_def console_line_def verdict_of_def)
next
  case (Inr u)
  with assms have "attempted api (verify_steps g) w = length (verify_steps g)"
    by (intro run_calls_returned_attempted) (simp add: verify_app_unfold [symmetric])
  with Inr assms show ?thesis
    by (simp add: page_calls_def report_calls_def console_line_def verdict_of_def)
qed

text \<open>
  C23. The console tells the verdict: in a run in which the page was opened and the
  verification returned or raised an exception of class \<^verbatim>\<open>Exception\<close>, the last line
  the script prints is the line of that verdict, and reading it back gives the
  verdict, with the message of the exception when it failed.
\<close>

theorem last_line_tells_the_verdict:
  assumes "sync_playwright api w = (Inr p, w1)" and "launch api p True w1 = (Inr b, w2)"
    and "new_page api b w2 = (Inr g, w3)"
    and "verify_app api g w3 = (r, w4)" and "\<forall>e. r = Inl e \<longrightarrow> is_Exception e"
  shows "last (printed (trace_of (main (traced api) (w, [])))) = console_line (verdict_of r) \<and>
         read_line (last (printed (trace_of (main (traced api) (w, []))))) = Some (verdict_of r)"
proof -
  from printed_page_calls [OF assms(4,5)] obtain ls
    where "printed (page_calls api b g w3) = ls @ [console_line (verdict_of r)]" by blast
  with assms(1-3) show ?thesis by (simp add: main_traced main_calls_paged)
qed

theorem last_line_tells_the_verdict_witness:
  "last (printed (trace_of (main (traced (fault_api
       (fault_at (Screenshot (Page 0) ''verification.png'') (Exn OtherException ''disk full''))))
       (0, [])))) = ''Error: disk full'' \<and>
   read_line (last (printed (trace_of (main (traced (fault_api
       (fault_at (Screenshot (Page 0) ''verification.png'') (Exn OtherException ''disk full''))))
       (0, []))))) = Some (Failed ''disk full'')"
  using last_line_tells_the_verdict [of
      "fault_api (fault_at (Screenshot (Page 0) ''verification.png'')
         (Exn OtherException ''disk full''))"
      0 "Playwright 0" 1 "Browser 0" 2 "Page 0" 3
      "Inl (Exn OtherException ''disk full'')" 9]
  by (simp add: verify_app_def api_simps run_simps console_line_def verdict_of_def read_line_def)

end
