(* ===== verification/Browser_World.thy ===== *)
theory Browser_World
  imports Playwright_API
begin

text \<open>
  A simulated world for the script to run in, written from the description of the
  collaborators in \<^verbatim>\<open>spec.md\<close> (sections 4.1, 6 and 7), since none of them is code of
  \<^verbatim>\<open>src/\<close>: the application under test with its debounced table, the Playwright driver
  with its browsers and pages, a clock in milliseconds, the files written and the
  lines printed. \<open>world_api\<close> implements the interface of theory \<open>Playwright_API\<close>
  over it, one definition per operation. \<open>wf_world\<close> is the invariant of the world;
  every operation keeps it.

  The application: a page that was loaded at time \<open>t\<close> shows the element of a selector
  from time \<open>t + d\<close> on, where \<open>d\<close> is the selector's entry in \<open>attach_delay\<close> (no
  entry: never). An input changes \<open>inputs\<close> at once and marks the page dirty; the
  table is rendered from the inputs once \<open>debounce_ms\<close> have passed without further
  input (\<open>settle\<close>), which is checked whenever the clock moves (\<open>elapse\<close>).
\<close>

section \<open>State\<close>

record page_state =
  owner :: nat
  loaded_at :: "nat option"
  inputs :: "string \<rightharpoonup> string"
  dirty_since :: "nat option"
  table :: "string \<rightharpoonup> string"

type_synonym image = "(string \<rightharpoonup> string) \<times> (string \<rightharpoonup> string)"

record world =
  served_at :: "string option"
  attach_delay :: "string \<rightharpoonup> nat"
  debounce_ms :: nat
  disk_writable :: bool
  browser_installed :: bool
  clock :: nat
  driver_up :: bool
  next_handle :: nat
  live_browsers :: "nat set"
  pages :: "nat \<rightharpoonup> page_state"
  files :: "string \<rightharpoonup> image"
  stdout :: "string list"

section \<open>Time and the debounced table\<close>

definition settle :: "nat \<Rightarrow> nat \<Rightarrow> page_state \<Rightarrow> page_state" where
  "settle now d pg =
     (case dirty_since pg of
        None \<Rightarrow> pg
      | Some t \<Rightarrow> if t + d \<le> now then pg\<lparr>table := inputs pg, dirty_since := None\<rparr> else pg)"

definition elapse :: "nat \<Rightarrow> world \<Rightarrow> world" where
  "elapse dt w =
     w\<lparr>clock := clock w + dt,
       pages := (\<lambda>h. map_option (settle (clock w + dt) (debounce_ms w)) (pages w h))\<rparr>"

definition attach_time :: "world \<Rightarrow> page_state \<Rightarrow> string \<Rightarrow> nat option" where
  "attach_time w pg sel =
     (case loaded_at pg of
        None \<Rightarrow> None
      | Some t0 \<Rightarrow> (case attach_delay w sel of None \<Rightarrow> None | Some d \<Rightarrow> Some (t0 + d)))"

section \<open>Operations\<close>

text \<open>
  The driver and the browser. Starting the driver and stopping it always succeed.
  Stopping the driver ends no browser: the specification names the cleanup block of
  the script as what releases the browser (sections 4.1 and 5), so in this world a
  browser runs until it is closed. A launch needs a running driver and an installed
  browser; the specification names no failure of the launch, the flag
  \<open>browser_installed\<close> is this world's way to have one. Closing a browser removes it
  and its pages and never raises.
\<close>

definition w_sync_playwright :: "(world, playwright) py" where
  "w_sync_playwright =
     (\<lambda>w. (Inr (Playwright (next_handle w)),
           w\<lparr>driver_up := True, next_handle := Suc (next_handle w)\<rparr>))"

definition w_exit :: "playwright \<Rightarrow> (world, unit) py" where
  "w_exit p = (\<lambda>w. (Inr (), w\<lparr>driver_up := False\<rparr>))"

definition w_launch :: "playwright \<Rightarrow> bool \<Rightarrow> (world, browser) py" where
  "w_launch p headless =
     (\<lambda>w. if driver_up w \<and> browser_installed w
          then (Inr (Browser (next_handle w)),
                w\<lparr>live_browsers := insert (next_handle w) (live_browsers w),
                  next_handle := Suc (next_handle w)\<rparr>)
          else (Inl (Exn OtherException ''Executable does not exist''), w))"

definition w_new_page :: "browser \<Rightarrow> (world, page) py" where
  "w_new_page b =
     (\<lambda>w. case b of Browser n \<Rightarrow>
        if n \<in> live_browsers w
        then (Inr (Page (next_handle w)),
              w\<lparr>pages := (pages w)(next_handle w \<mapsto>
                    \<lparr>owner = n, loaded_at = None, inputs = Map.empty,
                      dirty_since = None, table = Map.empty\<rparr>),
                next_handle := Suc (next_handle w)\<rparr>)
        else (Inl (Exn OtherException ''Target page, context or browser has been closed''), w))"

definition w_close :: "browser \<Rightarrow> (world, unit) py" where
  "w_close b =
     (\<lambda>w. case b of Browser n \<Rightarrow>
        (Inr (),
         w\<lparr>live_browsers := live_browsers w - {n},
           pages := (\<lambda>h. case pages w h of
                          None \<Rightarrow> None
                        | Some pg \<Rightarrow> if owner pg = n then None else Some pg)\<rparr>))"

text \<open>
  The page. Every operation on a page that no longer exists raises. Navigation raises
  a \<open>NavigationError\<close> unless the application is served at the address. Waiting for a
  selector returns when the element is there, moving the clock to that time, and
  raises a \<open>TimeoutError\<close> after 30000 ms otherwise. Filling raises an
  \<open>ElementInteractionError\<close> unless the element is there. Waiting for a timeout moves
  the clock. A screenshot stores what the page shows: its inputs and its table.
\<close>

definition with_page :: "page \<Rightarrow> (nat \<Rightarrow> page_state \<Rightarrow> (world, 'a) py) \<Rightarrow> (world, 'a) py" where
  "with_page g k =
     (\<lambda>w. case g of Page m \<Rightarrow>
        (case pages w m of
           None \<Rightarrow> (Inl (Exn OtherException ''Target page, context or browser has been closed''), w)
         | Some pg \<Rightarrow> k m pg w))"

definition w_goto :: "page \<Rightarrow> string \<Rightarrow> (world, unit) py" where
  "w_goto g url =
     with_page g (\<lambda>m pg w.
       if served_at w = Some url
       then (Inr (),
             w\<lparr>pages := (pages w)(m \<mapsto>
                   pg\<lparr>loaded_at := Some (clock w), inputs := Map.empty,
                      dirty_since := None, table := Map.empty\<rparr>)\<rparr>)
       else (Inl (Exn NavigationError (''net::ERR_CONNECTION_REFUSED at '' @ url)), w))"

definition w_wait_for_selector :: "page \<Rightarrow> string \<Rightarrow> (world, unit) py" where
  "w_wait_for_selector g sel =
     with_page g (\<lambda>m pg w.
       case attach_time w pg sel of
         None \<Rightarrow> (Inl (Exn TimeoutError ''Timeout 30000ms exceeded.''), elapse 30000 w)
       | Some ta \<Rightarrow>
           if ta \<le> clock w + 30000 then (Inr (), elapse (ta - clock w) w)
           else (Inl (Exn TimeoutError ''Timeout 30000ms exceeded.''), elapse 30000 w))"

definition w_fill :: "page \<Rightarrow> string \<Rightarrow> string \<Rightarrow> (world, unit) py" where
  "w_fill g sel v =
     with_page g (\<lambda>m pg w.
       case attach_time w pg sel of
         None \<Rightarrow> (Inl (Exn ElementInteractionError (''no element matches '' @ sel)), w)
       | Some ta \<Rightarrow>
           if ta \<le> clock w
           then (Inr (),
                 elapse 0 (w\<lparr>pages := (pages w)(m \<mapsto>
                     pg\<lparr>inputs := (inputs pg)(sel \<mapsto> v), dirty_since := Some (clock w)\<rparr>)\<rparr>))
           else (Inl (Exn ElementInteractionError (''no element matches '' @ sel)), w))"

definition w_wait_for_timeout :: "page \<Rightarrow> nat \<Rightarrow> (world, unit) py" where
  "w_wait_for_timeout g ms = with_page g (\<lambda>m pg w. (Inr (), elapse ms w))"

definition w_screenshot :: "page \<Rightarrow> string \<Rightarrow> (world, unit) py" where
  "w_screenshot g path =
     with_page g (\<lambda>m pg w.
       if disk_writable w
       then (Inr (), w\<lparr>files := (files w)(path \<mapsto> (inputs pg, table pg))\<rparr>)
       else (Inl (Exn OtherException (''cannot write '' @ path)), w))"

definition w_print :: "string \<Rightarrow> (world, unit) py" where
  "w_print s = (\<lambda>w. (Inr (), w\<lparr>stdout := stdout w @ [s]\<rparr>))"

definition world_api :: "world playwright_api" where
  "world_api =
     \<lparr> sync_playwright = w_sync_playwright,
       sync_playwright_exit = w_exit,
       launch = w_launch,
       new_page = w_new_page,
       close = w_close,
       goto = w_goto,
       wait_for_selector = w_wait_for_selector,
       fill = w_fill,
       wait_for_timeout = w_wait_for_timeout,
       screenshot = w_screenshot,
       print = w_print \<rparr>"

text \<open>A world in which nothing has run yet, for a given application.\<close>

definition boot :: "string option \<Rightarrow> (string \<rightharpoonup> nat) \<Rightarrow> nat \<Rightarrow> world" where
  "boot address delays debounce =
     \<lparr> served_at = address, attach_delay = delays, debounce_ms = debounce,
       disk_writable = True, browser_installed = True, clock = 0, driver_up = False,
       next_handle = 0, live_browsers = {}, pages = Map.empty, files = Map.empty,
       stdout = [] \<rparr>"

lemma world_api_simps [api_simps]:
  "sync_playwright world_api = w_sync_playwright"
  "sync_playwright_exit world_api = w_exit"
  "launch world_api = w_launch"
  "new_page world_api = w_new_page"
  "close world_api = w_close"
  "goto world_api = w_goto"
  "wait_for_selector world_api = w_wait_for_selector"
  "fill world_api = w_fill"
  "wait_for_timeout world_api = w_wait_for_timeout"
  "screenshot world_api = w_screenshot"
  "print world_api = w_print"
  by (simp_all add: world_api_def)

lemmas world_op_defs =
  w_sync_playwright_def w_exit_def w_launch_def w_new_page_def w_close_def w_goto_def
  w_wait_for_selector_def w_fill_def w_wait_for_timeout_def w_screenshot_def w_print_def
  with_page_def attach_time_def

lemmas world_defs [world_simps] = world_op_defs elapse_def settle_def

section \<open>Time passes in steps\<close>

text \<open>
  Settling a page twice is settling it at the later time, so letting time pass in two
  steps is letting it pass in one; in particular no time passing twice is no time
  passing once. Runs that differ only in such steps end in the same world.
\<close>

lemma settle_settle [simp]:
  "t1 \<le> t2 \<Longrightarrow> settle t2 d (settle t1 d pg) = settle t2 d pg"
  by (auto simp: settle_def split: option.splits)

lemma elapse_elapse [simp]: "elapse a (elapse b w) = elapse (a + b) w"
  by (simp add: elapse_def fun_eq_iff option.map_comp comp_def add.commute add.left_commute
      cong: map_option_cong)

section \<open>The invariant of the world\<close>

text \<open>
  A page is in order when its browser is running, it was loaded and last typed into
  in the past, a pending input is not yet due, and without a pending input its table
  shows its inputs. A world is in order when its pages are and when every handle in
  use was handed out, so that the next handle is fresh.
\<close>

definition page_ok :: "world \<Rightarrow> page_state \<Rightarrow> bool" where
  "page_ok w pg \<longleftrightarrow>
     owner pg \<in> live_browsers w \<and>
     (\<forall>t. loaded_at pg = Some t \<longrightarrow> t \<le> clock w) \<and>
     (\<forall>t. dirty_since pg = Some t \<longrightarrow> t \<le> clock w \<and> clock w < t + debounce_ms w) \<and>
     (dirty_since pg = None \<longrightarrow> table pg = inputs pg)"

definition wf_world :: "world \<Rightarrow> bool" where
  "wf_world w \<longleftrightarrow>
     (\<forall>h pg. pages w h = Some pg \<longrightarrow> h < next_handle w \<and> page_ok w pg) \<and>
     (\<forall>n \<in> live_browsers w. n < next_handle w)"

lemma wf_worldI:
  assumes "\<And>h pg. pages w h = Some pg \<Longrightarrow> h < next_handle w"
    and "\<And>h pg. pages w h = Some pg \<Longrightarrow> page_ok w pg"
    and "\<And>n. n \<in> live_browsers w \<Longrightarrow> n < next_handle w"
  shows "wf_world w"
  using assms by (simp add: wf_world_def)

lemma wf_worldD:
  assumes "wf_world w"
  shows "pages w h = Some pg \<Longrightarrow> h < next_handle w"
    and "pages w h = Some pg \<Longrightarrow> page_ok w pg"
    and "n \<in> live_browsers w \<Longrightarrow> n < next_handle w"
  using assms by (auto simp: wf_world_def)

lemma wf_world_boot: "wf_world (boot address delays debounce)"
  by (simp add: wf_world_def boot_def)

subsection \<open>What a page's being in order depends on\<close>

lemma page_ok_frame [frame_simps, simp]:
  "page_ok (w\<lparr>driver_up := d\<rparr>) pg = page_ok w pg"
  "page_ok (w\<lparr>next_handle := k\<rparr>) pg = page_ok w pg"
  "page_ok (w\<lparr>pages := ps\<rparr>) pg = page_ok w pg"
  "page_ok (w\<lparr>files := fs\<rparr>) pg = page_ok w pg"
  "page_ok (w\<lparr>stdout := out\<rparr>) pg = page_ok w pg"
  by (simp_all add: page_ok_def)

lemma page_ok_launch:
  "page_ok w pg \<Longrightarrow> page_ok (w\<lparr>live_browsers := insert n (live_browsers w)\<rparr>) pg"
  by (auto simp: page_ok_def)

lemma page_ok_close:
  "page_ok w pg \<Longrightarrow> owner pg \<noteq> n \<Longrightarrow>
   page_ok (w\<lparr>live_browsers := live_browsers w - {n}\<rparr>) pg"
  by (auto simp: page_ok_def)

lemma page_ok_blank:
  "n \<in> live_browsers w \<Longrightarrow>
   page_ok w \<lparr>owner = n, loaded_at = None, inputs = Map.empty, dirty_since = None,
     table = Map.empty\<rparr>"
  by (simp add: page_ok_def)

lemma page_ok_loaded:
  "page_ok w pg \<Longrightarrow>
   page_ok w (pg\<lparr>loaded_at := Some (clock w), inputs := Map.empty, dirty_since := None,
     table := Map.empty\<rparr>)"
  by (simp add: page_ok_def)

lemma page_ok_typed:
  "page_ok w pg \<Longrightarrow>
   page_ok w
     (settle (clock w) (debounce_ms w)
        (pg\<lparr>inputs := (inputs pg)(sel \<mapsto> v), dirty_since := Some (clock w)\<rparr>))"
  by (auto simp: page_ok_def settle_def)

lemma settle_fields [simp]:
  "owner (settle now d pg) = owner pg" "loaded_at (settle now d pg) = loaded_at pg"
  "inputs (settle now d pg) = inputs pg"
  by (simp_all add: settle_def split: option.splits)

lemma elapse_fields [frame_simps, simp]:
  "clock (elapse dt w) = clock w + dt" "live_browsers (elapse dt w) = live_browsers w"
  "debounce_ms (elapse dt w) = debounce_ms w" "next_handle (elapse dt w) = next_handle w"
  "driver_up (elapse dt w) = driver_up w"
  "pages (elapse dt w) h = map_option (settle (clock w + dt) (debounce_ms w)) (pages w h)"
  "files (elapse dt w) = files w" "stdout (elapse dt w) = stdout w"
  "served_at (elapse dt w) = served_at w" "attach_delay (elapse dt w) = attach_delay w"
  "disk_writable (elapse dt w) = disk_writable w"
  "browser_installed (elapse dt w) = browser_installed w"
  by (simp_all add: elapse_def)

lemma page_ok_settle:
  "page_ok w pg \<Longrightarrow> page_ok (elapse dt w) (settle (clock w + dt) (debounce_ms w) pg)"
  by (auto simp: page_ok_def settle_def elapse_def split: option.splits)

subsection \<open>Every operation keeps the invariant\<close>

lemma wf_world_elapse: "wf_world w \<Longrightarrow> wf_world (elapse dt w)"
  by (rule wf_worldI) (auto simp: page_ok_settle dest: wf_worldD)

lemma wf_sync_playwright: "wf_world w \<Longrightarrow> wf_world (state_of (w_sync_playwright w))"
  by (rule wf_worldI) (auto simp: w_sync_playwright_def less_Suc_eq dest: wf_worldD)

lemma wf_exit: "wf_world w \<Longrightarrow> wf_world (state_of (w_exit p w))"
  by (rule wf_worldI) (auto simp: w_exit_def dest: wf_worldD)

lemma wf_launch: "wf_world w \<Longrightarrow> wf_world (state_of (w_launch p h w))"
  by (rule wf_worldI)
    (auto simp: w_launch_def less_Suc_eq page_ok_launch dest: wf_worldD split: if_splits)

lemma wf_new_page: "wf_world w \<Longrightarrow> wf_world (state_of (w_new_page b w))"
  by (cases b, rule wf_worldI)
    (auto simp: w_new_page_def less_Suc_eq page_ok_blank dest: wf_worldD split: if_splits)

lemma wf_close: "wf_world w \<Longrightarrow> wf_world (state_of (w_close b w))"
  by (cases b, rule wf_worldI)
    (auto simp: w_close_def page_ok_close dest: wf_worldD split: option.splits if_splits)

lemma wf_goto: "wf_world w \<Longrightarrow> wf_world (state_of (w_goto g u w))"
  by (cases g, rule wf_worldI)
    (auto simp: w_goto_def with_page_def page_ok_loaded dest: wf_worldD
      split: option.splits if_splits)

lemma wf_wait_for_selector: "wf_world w \<Longrightarrow> wf_world (state_of (w_wait_for_selector g s w))"
  by (cases g)
    (auto simp: w_wait_for_selector_def with_page_def wf_world_elapse split: option.splits)

lemma wf_typed:
  assumes "wf_world w" and "pages w m = Some pg"
  shows "wf_world (elapse 0 (w\<lparr>pages := (pages w)(m \<mapsto>
           pg\<lparr>inputs := (inputs pg)(sel \<mapsto> v), dirty_since := Some (clock w)\<rparr>)\<rparr>))"
    (is "wf_world ?w'")
proof (rule wf_worldI)
  fix h pg'
  assume "pages ?w' h = Some pg'"
  then have pg': "(h = m \<and> pg' = settle (clock w) (debounce_ms w)
        (pg\<lparr>inputs := (inputs pg)(sel \<mapsto> v), dirty_since := Some (clock w)\<rparr>))
      \<or> (h \<noteq> m \<and> (\<exists>q. pages w h = Some q \<and> pg' = settle (clock w) (debounce_ms w) q))"
    by (auto split: if_splits)
  from pg' assms show "h < next_handle ?w'"
    by (auto dest: wf_worldD)
  from pg' assms show "page_ok ?w' pg'"
    using page_ok_typed [of w pg] page_ok_settle [of w _ 0]
    by (auto simp: elapse_def dest: wf_worldD)
qed (use assms in \<open>auto dest: wf_worldD\<close>)

lemma wf_fill: "wf_world w \<Longrightarrow> wf_world (state_of (w_fill g s v w))"
  by (cases g) (auto simp: w_fill_def with_page_def wf_typed split: option.splits)

lemma wf_wait_for_timeout: "wf_world w \<Longrightarrow> wf_world (state_of (w_wait_for_timeout g n w))"
  by (cases g)
    (auto simp: w_wait_for_timeout_def with_page_def wf_world_elapse split: option.splits)

lemma wf_screenshot: "wf_world w \<Longrightarrow> wf_world (state_of (w_screenshot g f w))"
  by (cases g, rule wf_worldI)
    (auto simp: w_screenshot_def with_page_def dest: wf_worldD split: option.splits if_splits)

lemma wf_print: "wf_world w \<Longrightarrow> wf_world (state_of (w_print s w))"
  by (rule wf_worldI) (auto simp: w_print_def dest: wf_worldD)

lemmas wf_operations = wf_sync_playwright wf_exit wf_launch wf_new_page wf_close wf_goto
  wf_wait_for_selector wf_fill wf_wait_for_timeout wf_screenshot wf_print

lemma world_api_preserves_wf: "api_preserves wf_world world_api"
  unfolding api_preserves_def
proof
  fix c show "preserves wf_world (perform world_api c)"
    by (cases c) (simp_all add: preserves_def api_simps wf_operations)
qed

section \<open>The application's configuration\<close>

text \<open>
  No operation changes where the application is served, when its elements appear, its
  debounce delay, or whether the disk can be written and the browser is installed.
\<close>

definition same_config :: "world \<Rightarrow> world \<Rightarrow> bool" where
  "same_config w0 w \<longleftrightarrow>
     served_at w = served_at w0 \<and> attach_delay w = attach_delay w0 \<and>
     debounce_ms w = debounce_ms w0 \<and> disk_writable w = disk_writable w0 \<and>
     browser_installed w = browser_installed w0"

lemma world_api_preserves_config: "api_preserves (same_config w0) world_api"
  unfolding api_preserves_def
proof
  fix c show "preserves (same_config w0) (perform world_api c)"
    by (cases c)
      (auto simp: preserves_def same_config_def api_simps world_defs
        split: option.splits browser.splits page.splits)
qed

section \<open>What the world raises\<close>

text \<open>Every exception of the simulated world is of class \<^verbatim>\<open>Exception\<close>.\<close>

lemma world_raises_Exception:
  "perform world_api c w = (Inl e, w') \<Longrightarrow> is_Exception e"
  by (cases c)
    (auto simp: api_simps run_simps world_defs is_Exception_def
      split: if_splits option.splits browser.splits page.splits)

end
