(* ===== verification/Waiting_Fill.thy ===== *)
theory Waiting_Fill
  imports Browser_World
begin

text \<open>
  A second implementation of the interface over the simulated world. In
  \<open>Browser_World\<close> a \<^verbatim>\<open>fill\<close> raises at once when its element is not in the page, as
  the error taxonomy of the specification has it. Playwright's own \<^verbatim>\<open>fill\<close> first
  waits for the element, up to the timeout, and raises a timeout error when it does
  not appear. \<open>w_fill_waiting\<close> is that behaviour, the wait followed by the fill, and
  \<open>waiting_api\<close> is the simulated world with it. What \<open>world_api\<close> preserves,
  \<open>waiting_api\<close> preserves, so the invariants of the script carry over.
\<close>

section \<open>The operation\<close>

definition w_fill_waiting :: "page \<Rightarrow> string \<Rightarrow> string \<Rightarrow> (world, unit) py" where
  "w_fill_waiting g sel v = seq (w_wait_for_selector g sel) (w_fill g sel v)"

definition waiting_api :: "world playwright_api" where
  "waiting_api = world_api\<lparr>fill := w_fill_waiting\<rparr>"

lemma waiting_api_simps [api_simps]:
  "sync_playwright waiting_api = w_sync_playwright"
  "sync_playwright_exit waiting_api = w_exit"
  "launch waiting_api = w_launch"
  "new_page waiting_api = w_new_page"
  "close waiting_api = w_close"
  "goto waiting_api = w_goto"
  "wait_for_selector waiting_api = w_wait_for_selector"
  "fill waiting_api = w_fill_waiting"
  "wait_for_timeout waiting_api = w_wait_for_timeout"
  "screenshot waiting_api = w_screenshot"
  "print waiting_api = w_print"
  by (simp_all add: waiting_api_def world_api_def)

lemma le_add_diff_nat [simp]: "(b::nat) \<le> a + (b - a)"
  by simp

section \<open>Against the failing fill\<close>

text \<open>
  Every call of the waiting world is the call of the failing one, but for \<^verbatim>\<open>fill\<close>,
  which is the wait for its selector followed by the failing fill.
\<close>

lemma perform_waiting_api:
  "perform waiting_api c =
     (case c of
        Fill g s v \<Rightarrow> seq (perform world_api (WaitForSelector g s)) (perform world_api c)
      | _ \<Rightarrow> perform world_api c)"
  by (cases c) (simp_all add: api_simps w_fill_waiting_def)

lemma waiting_api_preserves:
  assumes "api_preserves P world_api"
  shows "api_preserves P waiting_api"
  unfolding api_preserves_def
proof
  fix c
  note world = assms [unfolded api_preserves_def, rule_format]
  show "preserves P (perform waiting_api c)"
    unfolding perform_waiting_api by (cases c) (simp_all only: call.case world preserves_seq)
qed

end
