(* ===== verification/Spec2Isabelle.thy ===== *)
theory Spec2Isabelle
  imports Module_Script Session_Protocol Cleanup_Failures Console_Report Waiting_Fill
begin

text \<open>
  A verification development for \<^verbatim>\<open>src/verify_debounce.py\<close>, a script that drives a
  headless browser through one fixed interaction with a web application and saves a
  screenshot.

  \<^bold>\<open>The program.\<close> The script has two parts, after the import of
  \<^verbatim>\<open>sync_playwright\<close> in line 1. \<^verbatim>\<open>verify_app(page)\<close> (lines 3 to 25)
  navigates the page to \<^verbatim>\<open>http://localhost:3000\<close>, waits for the element
  \<^verbatim>\<open>#maxPoints\<close>, fills \<^verbatim>\<open>#examTitle\<close> and \<^verbatim>\<open>#maxPoints\<close>, waits 1000 ms for the
  application's debounced update, takes a screenshot and prints a confirmation. The
  main block (lines 27 to 36) starts the Playwright driver in a \<^verbatim>\<open>with\<close> statement,
  launches a browser, opens a page, calls \<^verbatim>\<open>verify_app\<close> inside
  \<^verbatim>\<open>try ... except Exception ... finally\<close>, prints the error when one is caught, and
  closes the browser in the cleanup block. Nothing in the script computes: all it does
  is call the outside world in an order, and react to a call that raises. The
  development therefore models the order and the reactions exactly, and the outside
  world twice: as an arbitrary implementation of an interface, and as one simulated
  world written from \<^verbatim>\<open>spec.md\<close>.

  \<^bold>\<open>The theories and what they model.\<close>
  \<^item> \<open>Prelude\<close>: the fact collections (\<open>run_simps\<close>, \<open>api_simps\<close>, \<open>world_simps\<close>,
    \<open>frame_simps\<close>), the type of computations, and facts about outcomes and traces. A
    computation is a function from the state of the world to an outcome and the next
    state; the outcome is \<open>Inl\<close> of the exception raised or \<open>Inr\<close> of the value
    returned. The state is kept when a statement raises, because handlers and cleanup
    blocks run in the state the failed statement left.
  \<^item> \<open>Py_Control\<close>: the constructs of Python the script uses. \<open>exn\<close> is an exception
    with its class and message; \<open>is_Exception\<close> is the class test of
    \<^verbatim>\<open>except Exception\<close> (line 33) and \<open>str_exn\<close> the conversion in the formatted
    string (line 34). \<open>seq\<close> and \<open>then_do\<close> are statement sequencing, \<open>try_except\<close>,
    \<open>try_finally\<close> and \<open>with_as\<close> the three compound statements of lines 28 to 36.
    \<open>preserves\<close> and its rules lift an invariant of the parts to the whole.
  \<^item> \<open>Playwright_API\<close>: the record \<open>playwright_api\<close> has one operation per external
    call of the script (entering and leaving \<^verbatim>\<open>sync_playwright()\<close>, \<^verbatim>\<open>launch\<close>,
    \<^verbatim>\<open>new_page\<close>, \<^verbatim>\<open>close\<close>, \<^verbatim>\<open>goto\<close>, \<^verbatim>\<open>wait_for_selector\<close>, \<^verbatim>\<open>fill\<close>,
    \<^verbatim>\<open>wait_for_timeout\<close>, \<^verbatim>\<open>screenshot\<close>, \<^verbatim>\<open>print\<close>) over any type of world states;
    \<open>call\<close> is the datatype of these calls; \<open>traced\<close> wraps an implementation so that
    every call is recorded before it is answered; \<open>run_calls\<close> runs a list of calls and
    \<open>attempted\<close> counts how many of them are made; \<open>erases\<close> says that recording
    changes nothing else.
  \<^item> \<open>Fault_Injection\<close>: an implementation of the interface in which a table decides
    which calls raise. It provides a concrete run for every path of the script.
  \<^item> \<open>Verifier\<close>: \<open>verify_app\<close>, translated statement by statement with the literals of
    the source. \<open>verify_steps\<close>, its calls as a list, is the specification of the
    order and not a translation of lines.
  \<^item> \<open>Main_Script\<close>: \<open>report_error\<close> (the handler, lines 33 and 34), \<open>run_page\<close> (the
    \<^verbatim>\<open>try\<close> statement, lines 31 to 36) and \<open>main\<close> (the \<^verbatim>\<open>with\<close> statement, lines 28
    to 36). \<open>main_calls\<close>, with \<open>page_calls\<close> and \<open>report_calls\<close>, is the
    specification of the trace, the calls a run is to make as a function of the
    answers; \<open>main_traced\<close> proves that the script makes exactly these.
  \<^item> \<open>Module_Script\<close>: \<open>script\<close>, the top level of the file run under a module name:
    the import of line 1 as a computation that may raise, then the main block when
    the name is \<^verbatim>\<open>__main__\<close> (line 27), and nothing otherwise. The theory has the
    definitions and their evaluation only: what the import does is a parameter, so
    nothing of substance can be proved of it.
  \<^item> \<open>Session_Protocol\<close>: the order of the calls as a protocol of one session. The
    phases (\<open>phase\<close>) are the points of the main block as the calls show them; \<open>step\<close>
    is the transition relation, \<open>delta\<close> and \<open>deltas\<close> the same as functions, proved
    equal to the relation; \<open>final_phase\<close> is the phase a run ends in. The protocol is
    an abstraction of the script's control flow, not a translation of lines.
  \<^item> \<open>Session_Events\<close>: the run as a log of calls with their answers (\<open>observed\<close>,
    \<open>replay\<close>), and the handles of lines 28 to 30: \<open>wf_log\<close> holds of a log in which
    every call names only a driver, browser or page that an earlier answer gave.
  \<^item> \<open>Cleanup_Failures\<close>: the runs in which the error handling itself fails: the
    exit of the driver raises, or the \<^verbatim>\<open>print\<close> of the handler raises.
  \<^item> \<open>Console_Report\<close>: the two lines the script prints (lines 25 and 34) as
    \<open>console_line\<close>, the reader \<open>read_line\<close> that tells them apart, and \<open>printed\<close>, the
    lines among the calls of a run.
  \<^item> \<open>Browser_World\<close>: the simulated world (application with a debounced table,
    driver, browsers, pages, clock, files, console), its operations \<open>world_api\<close> and
    its invariant \<open>wf_world\<close>. It is written from the specification, not from code.
  \<^item> \<open>Waiting_Fill\<close>: a second implementation over the same world, \<open>waiting_api\<close>, in
    which \<^verbatim>\<open>fill\<close> waits for its element as Playwright's does (\<open>w_fill_waiting\<close>),
    where the first raises at once as the specification's error taxonomy has it.
  \<^item> \<open>Spec2Isabelle\<close> (this theory): the script run in the simulated world, with the
    failing and with the waiting fill.

  \<^bold>\<open>What the theorems show.\<close> For every implementation of the interface (theories
  \<open>Verifier\<close> and \<open>Main_Script\<close>): \<open>verify_app\<close> makes a prefix of its seven calls in
  order and stops at the first that raises; the screenshot is taken only after the
  wait of 1000 ms returned; once the page is open the browser is closed exactly once,
  last but for the exit of the driver, which is always last; an exception of class
  \<^verbatim>\<open>Exception\<close> from \<open>verify_app\<close> is printed and does not leave the script; an
  exception of another class, a failure of the launch, of opening the page or of the
  close does leave it; when opening the page fails the browser is not closed by
  the script; and \<open>main\<close> returns normally exactly on the runs in which every call
  of the set-up and of the cleanup returned and the verification returned or had its
  error printed. For the
  protocol (theory \<open>Session_Protocol\<close>): every run of \<open>main\<close> and
  every prefix of it is a path of the protocol; the run ends in \<open>Unclosed\<close> exactly
  when opening the page raised; the requests of a page and the closes balance, by a
  law proved by induction over the transition relation; a page is used only between
  its request and the close; no call is made twice and a run has at most thirteen
  calls. For the log of events (theory \<open>Session_Events\<close>): the script names only
  handles it was given, and a driver that fails to start ends the run at once. For
  the failures of the error handling (theory \<open>Cleanup_Failures\<close>): an exception of
  the driver's exit leaves the script whatever happened before, and an exception of
  the handler's \<^verbatim>\<open>print\<close> leaves it after the browser was closed. For
  the console (theory \<open>Console_Report\<close>): the last line printed, read back, is the
  verdict of the verification. In the simulated world (this theory): the end-to-end
  scenarios of the specification (application ready, application not running,
  element never appearing), the dependence of the screenshot on the debounce delay,
  overwriting on a second run, bounds on the time a run takes, and that a run leaks
  no browser. With the waiting fill: a title field that appears
  late is tolerated, and nothing changes when it appears in time.

  \<^bold>\<open>What holds in the simulated world only.\<close> The theorems of this theory are about
  the script in one world, written from the specification, and say nothing of
  Playwright itself. Three choices of that world matter. A browser runs until it is
  closed: stopping the driver ends no browser, since the specification names the
  cleanup block as what releases it; so that no browser is left is the work of
  \<^verbatim>\<open>browser.close()\<close>, and fails without it. A fill raises at once when its element
  is not there, as the error taxonomy has it; Playwright's fill waits, which is the
  world of \<open>Waiting_Fill\<close>, and the theorem about a late title field holds in the
  first world and its opposite in the second. A launch fails when the browser is not
  installed; the specification names no failure of the launch, the flag is this
  world's way to have one. The invariant \<open>wf_world\<close> is kept by every operation
  and therefore by any program over the interface; it is used as a hypothesis, for
  the freshness of handles, and is not a property of the script.

  \<^bold>\<open>Bounds.\<close> The script has no loop and no recursion, so no fuel is needed and every
  definition is a total function; that a run ends is by construction and is not
  claimed as a theorem. A run makes at most thirteen calls (three to set
  up, seven of \<open>verify_app\<close>, the error line, the close and the exit). Times are
  natural numbers of milliseconds; the default timeout of the selector wait is
  30000 ms, as in Playwright.

  \<^bold>\<open>What is not modelled.\<close> The Playwright library, the browser, the web application
  and the operating system are not code of \<^verbatim>\<open>src/\<close>; they appear as the interface and
  as the simulated world only, and what the import of line 1 does inside Playwright
  appears as a parameter of \<open>script\<close>. The pixels of the screenshot are abstracted to
  what the page shows: its inputs and its table. The script reads no argument, no
  environment variable and no file, so there is no command-line surface to model.
  Exceptions arise only as answers of the calls of the interface: an interrupt
  between two statements is not represented, only one that a call raises. The
  conversion of the exception in the formatted string of line 34 is the projection
  of its message (\<open>str_exn\<close>) and cannot itself raise. In line 28 the construction of
  the context manager and its \<^verbatim>\<open>__enter__\<close> are one operation, and the exit is
  given the handle that was returned; the exit never suppresses an exception, as
  Playwright's does not.
  With these the whole of \<^verbatim>\<open>src/verify_debounce.py\<close> is modelled.
\<close>

section \<open>Runs in the simulated world\<close>

abbreviation filled :: "string \<rightharpoonup> string" where
  "filled \<equiv> [''#examTitle'' \<mapsto> ''Debounce Test Exam'', ''#maxPoints'' \<mapsto> ''100'']"

definition demo_world :: "nat \<Rightarrow> world" where
  "demo_world debounce =
     boot (Some ''http://localhost:3000'')
       [''#examTitle'' \<mapsto> 80, ''#maxPoints'' \<mapsto> 120] debounce"

lemmas world_run = main_run_defs verify_app_def api_simps run_simps world_defs

lemmas demo_defs = demo_world_def boot_def

text \<open>
  The run of the script against an application that is served and shows both fields,
  the title no later than the points: what it returns, prints and writes, and how
  long it takes. The table in the screenshot is the rendered one exactly when the
  debounce delay is at most the 1000 ms the script waits.
\<close>

lemma ready_run:
  assumes "served_at w = Some ''http://localhost:3000''"
    and "attach_delay w ''#maxPoints'' = Some d1" and "d1 \<le> 30000"
    and "attach_delay w ''#examTitle'' = Some d2" and "d2 \<le> d1"
    and "disk_writable w" and "browser_installed w"
  shows "outcome_of (main world_api w) = Inr ()"
    and "stdout (state_of (main world_api w)) = stdout w @ [''Screenshot taken'']"
    and "files (state_of (main world_api w)) =
           (files w)(''verification.png'' \<mapsto>
             (filled, if debounce_ms w \<le> 1000 then filled else Map.empty))"
    and "clock (state_of (main world_api w)) = clock w + d1 + 1000"
  using assms by (simp_all add: world_run)

lemma config_frame:
  "served_at (state_of (main world_api w)) = served_at w"
  "attach_delay (state_of (main world_api w)) = attach_delay w"
  "debounce_ms (state_of (main world_api w)) = debounce_ms w"
  "disk_writable (state_of (main world_api w)) = disk_writable w"
  "browser_installed (state_of (main world_api w)) = browser_installed w"
  using preservesD [OF preserves_main [OF world_api_preserves_config], of w w]
  by (simp_all add: same_config_def)

text \<open>
  C3. The successful run: against an application that is served at the address, shows
  both fields within the timeout (the title no later than the points) and renders its
  table within 1000 ms of the last input, with a writable disk and an installed
  browser, the script returns normally, prints \<^verbatim>\<open>Screenshot taken\<close>, leaves a
  screenshot at \<^verbatim>\<open>verification.png\<close> that shows both inputs and a table rendered
  from them, and leaves no browser running that was not running before. In this world
  a browser ends only when it is closed, so the last part is the work of
  \<^verbatim>\<open>browser.close()\<close>.
\<close>

theorem successful_run:
  assumes "served_at w = Some ''http://localhost:3000''"
    and "attach_delay w ''#maxPoints'' = Some d1" and "d1 \<le> 30000"
    and "attach_delay w ''#examTitle'' = Some d2" and "d2 \<le> d1"
    and "disk_writable w" and "browser_installed w" and "debounce_ms w \<le> 1000"
  shows "outcome_of (main world_api w) = Inr () \<and>
         stdout (state_of (main world_api w)) = stdout w @ [''Screenshot taken''] \<and>
         files (state_of (main world_api w)) =
           (files w)(''verification.png'' \<mapsto> (filled, filled)) \<and>
         live_browsers (state_of (main world_api w)) \<subseteq> live_browsers w"
  using assms by (auto simp: world_run)

theorem successful_run_witness:
  "outcome_of (main world_api (demo_world 500)) = Inr () \<and>
   stdout (state_of (main world_api (demo_world 500))) = [''Screenshot taken''] \<and>
   files (state_of (main world_api (demo_world 500)))
     = [''verification.png'' \<mapsto> (filled, filled)] \<and>
   live_browsers (state_of (main world_api (demo_world 500))) = {}"
  using successful_run [of "demo_world 500" 120 80] by (simp add: demo_defs)

text \<open>
  C7. A stale table goes unnoticed: when the application needs more than 1000 ms to
  render its table, the script still returns normally and prints
  \<^verbatim>\<open>Screenshot taken\<close>, but the table in the screenshot is the one from before the
  inputs. The script never compares what the page shows with what it typed.
\<close>

theorem stale_table_goes_unnoticed:
  assumes "served_at w = Some ''http://localhost:3000''"
    and "attach_delay w ''#maxPoints'' = Some d1" and "d1 \<le> 30000"
    and "attach_delay w ''#examTitle'' = Some d2" and "d2 \<le> d1"
    and "disk_writable w" and "browser_installed w" and "1000 < debounce_ms w"
  shows "outcome_of (main world_api w) = Inr () \<and>
         stdout (state_of (main world_api w)) = stdout w @ [''Screenshot taken''] \<and>
         files (state_of (main world_api w)) =
           (files w)(''verification.png'' \<mapsto> (filled, Map.empty))"
  using assms by (simp add: world_run)

theorem stale_table_goes_unnoticed_witness:
  "outcome_of (main world_api (demo_world 1500)) = Inr () \<and>
   stdout (state_of (main world_api (demo_world 1500)))
     = stdout (demo_world 1500) @ [''Screenshot taken''] \<and>
   files (state_of (main world_api (demo_world 1500)))
     = (files (demo_world 1500))(''verification.png'' \<mapsto> (filled, Map.empty))"
  by (rule stale_table_goes_unnoticed [of _ 120 80]) (simp_all add: demo_defs)

section \<open>Failing runs in the simulated world\<close>

text \<open>
  C19. The application is not running: the navigation fails, the script prints the
  error line with the reason, writes no file, leaves no browser running that was not
  running before, and returns normally.
\<close>

theorem unreachable_application:
  assumes "served_at w \<noteq> Some ''http://localhost:3000''" and "browser_installed w"
  shows "outcome_of (main world_api w) = Inr () \<and>
         stdout (state_of (main world_api w)) =
           stdout w @ [''Error: net::ERR_CONNECTION_REFUSED at http://localhost:3000''] \<and>
         files (state_of (main world_api w)) = files w \<and>
         live_browsers (state_of (main world_api w)) \<subseteq> live_browsers w"
  using assms by (auto simp: world_run)

theorem unreachable_application_witness:
  "outcome_of (main world_api (boot None Map.empty 500)) = Inr () \<and>
   stdout (state_of (main world_api (boot None Map.empty 500))) =
     [''Error: net::ERR_CONNECTION_REFUSED at http://localhost:3000''] \<and>
   files (state_of (main world_api (boot None Map.empty 500))) = Map.empty \<and>
   live_browsers (state_of (main world_api (boot None Map.empty 500))) = {}"
  using unreachable_application [of "boot None Map.empty 500"] by (simp add: boot_def)

text \<open>
  C20. The element \<^verbatim>\<open>#maxPoints\<close> never appears, or only after the timeout: the wait
  raises after 30000 ms, the script prints the timeout as an error line, fills
  nothing, writes no file, leaves no browser running that was not running before,
  and returns normally.
\<close>

theorem selector_never_appears:
  assumes "served_at w = Some ''http://localhost:3000''" and "browser_installed w"
    and "attach_delay w ''#maxPoints'' = None
         \<or> (\<exists>d. attach_delay w ''#maxPoints'' = Some d \<and> 30000 < d)"
  shows "outcome_of (main world_api w) = Inr () \<and>
         stdout (state_of (main world_api w)) =
           stdout w @ [''Error: Timeout 30000ms exceeded.''] \<and>
         files (state_of (main world_api w)) = files w \<and>
         clock (state_of (main world_api w)) = clock w + 30000 \<and>
         live_browsers (state_of (main world_api w)) \<subseteq> live_browsers w"
  using assms by (auto simp: world_run)

theorem selector_never_appears_witness:
  "outcome_of (main world_api (boot (Some ''http://localhost:3000'') Map.empty 500)) = Inr () \<and>
   stdout (state_of (main world_api (boot (Some ''http://localhost:3000'') Map.empty 500))) =
     [''Error: Timeout 30000ms exceeded.''] \<and>
   files (state_of (main world_api (boot (Some ''http://localhost:3000'') Map.empty 500)))
     = Map.empty \<and>
   clock (state_of (main world_api (boot (Some ''http://localhost:3000'') Map.empty 500)))
     = 30000 \<and>
   live_browsers (state_of (main world_api (boot (Some ''http://localhost:3000'') Map.empty 500)))
     = {}"
  using selector_never_appears [of "boot (Some ''http://localhost:3000'') Map.empty 500"]
  by (simp add: boot_def)

text \<open>
  C21. The script waits for \<^verbatim>\<open>#maxPoints\<close> only, and fills \<^verbatim>\<open>#examTitle\<close> first: when
  the title field appears later than the points field, the first fill fails, the
  error is printed and no screenshot is written. This is the world in which a fill
  raises at once; with a fill that waits, as in theory \<open>Waiting_Fill\<close>, the same run
  succeeds.
\<close>

theorem title_field_late:
  assumes "served_at w = Some ''http://localhost:3000''" and "browser_installed w"
    and "attach_delay w ''#maxPoints'' = Some d1" and "d1 \<le> 30000"
    and "attach_delay w ''#examTitle'' = Some d2" and "d1 < d2"
  shows "outcome_of (main world_api w) = Inr () \<and>
         stdout (state_of (main world_api w)) =
           stdout w @ [''Error: no element matches #examTitle''] \<and>
         files (state_of (main world_api w)) = files w"
  using assms by (simp add: world_run)

theorem title_field_late_witness:
  "outcome_of (main world_api (boot (Some ''http://localhost:3000'')
       [''#examTitle'' \<mapsto> 200, ''#maxPoints'' \<mapsto> 120] 500)) = Inr () \<and>
   stdout (state_of (main world_api (boot (Some ''http://localhost:3000'')
       [''#examTitle'' \<mapsto> 200, ''#maxPoints'' \<mapsto> 120] 500))) =
     stdout (boot (Some ''http://localhost:3000'')
       [''#examTitle'' \<mapsto> 200, ''#maxPoints'' \<mapsto> 120] 500)
       @ [''Error: no element matches #examTitle''] \<and>
   files (state_of (main world_api (boot (Some ''http://localhost:3000'')
       [''#examTitle'' \<mapsto> 200, ''#maxPoints'' \<mapsto> 120] 500))) =
     files (boot (Some ''http://localhost:3000'')
       [''#examTitle'' \<mapsto> 200, ''#maxPoints'' \<mapsto> 120] 500)"
  by (rule title_field_late [of _ 120 200]) (simp_all add: boot_def)

text \<open>
  C26. The browser is not installed: the launch raises outside the guarded block, so
  the script raises its exception instead of printing it; only the driver was started
  and stopped, which took one handle.
\<close>

theorem missing_browser_aborts:
  assumes "\<not> browser_installed w"
  shows "main world_api w =
           (Inl (Exn OtherException ''Executable does not exist''),
            w\<lparr>driver_up := False, next_handle := Suc (next_handle w)\<rparr>)"
  using assms by (simp add: world_run)

theorem missing_browser_aborts_witness:
  "main world_api ((demo_world 500)\<lparr>browser_installed := False\<rparr>) =
     (Inl (Exn OtherException ''Executable does not exist''),
      (demo_world 500)\<lparr>browser_installed := False, driver_up := False,
        next_handle := Suc (next_handle ((demo_world 500)\<lparr>browser_installed := False\<rparr>))\<rparr>)"
  using missing_browser_aborts [of "(demo_world 500)\<lparr>browser_installed := False\<rparr>"]
  by simp

section \<open>Every run in the simulated world\<close>

text \<open>
  C25. With the browser installed the script always returns normally in the simulated
  world, whatever the application does: every failure there is of class
  \<^verbatim>\<open>Exception\<close> and happens inside the guarded block.
\<close>

theorem returns_when_browser_installed:
  assumes "browser_installed w"
  shows "returned (outcome_of (main world_api w))"
  using assms by (auto simp: world_run is_Exception_def split: option.splits if_splits)

theorem returns_when_browser_installed_witness:
  "returned (outcome_of (main world_api (boot None Map.empty 0)))"
  by (rule returns_when_browser_installed) (simp add: boot_def)

text \<open>
  C24. Time: a run never moves the clock back and takes at most 31000 ms, the timeout
  of the selector wait plus the fixed wait.
\<close>

theorem run_time_bounds:
  "clock w \<le> clock (state_of (main world_api w)) \<and>
   clock (state_of (main world_api w)) \<le> clock w + 31000"
  by (auto simp: world_run is_Exception_def split: option.splits if_splits)

text \<open>
  C22. A second run overwrites the first: run twice against the same ready
  application, the script leaves the files the first run left, with the same
  screenshot, and has printed the confirmation twice.
\<close>

theorem second_run_overwrites:
  assumes "served_at w = Some ''http://localhost:3000''"
    and "attach_delay w ''#maxPoints'' = Some d1" and "d1 \<le> 30000"
    and "attach_delay w ''#examTitle'' = Some d2" and "d2 \<le> d1"
    and "disk_writable w" and "browser_installed w"
  shows "files (state_of (main world_api (state_of (main world_api w)))) =
           files (state_of (main world_api w)) \<and>
         stdout (state_of (main world_api (state_of (main world_api w)))) =
           stdout w @ [''Screenshot taken'', ''Screenshot taken'']"
proof -
  let ?w' = "state_of (main world_api w)"
  have again: "files (state_of (main world_api ?w')) =
      (files ?w')(''verification.png'' \<mapsto>
             (filled, if debounce_ms ?w' \<le> 1000 then filled else Map.empty))"
    "stdout (state_of (main world_api ?w')) = stdout ?w' @ [''Screenshot taken'']"
    using assms by (simp_all only: ready_run(2,3) [of ?w' d1 d2] config_frame)
  with ready_run(2,3) [OF assms] show ?thesis
    by (simp add: config_frame)
qed

theorem second_run_overwrites_witness:
  "files (state_of (main world_api (state_of (main world_api (demo_world 500))))) =
     files (state_of (main world_api (demo_world 500))) \<and>
   stdout (state_of (main world_api (state_of (main world_api (demo_world 500))))) =
     stdout (demo_world 500) @ [''Screenshot taken'', ''Screenshot taken'']"
  by (rule second_run_overwrites [of _ 120 80]) (simp_all add: demo_defs)

section \<open>The session in the simulated world\<close>

text \<open>
  The invariant of the world is kept by every operation, hence by the script as by
  any program over the interface; a second run therefore starts from a world in
  order.
\<close>

lemma main_keeps_world_in_order:
  "wf_world w \<Longrightarrow> wf_world (state_of (main world_api w))"
  using preserves_main [OF world_api_preserves_wf] by (rule preservesD)

text \<open>
  C32. The script leaks no browser in the simulated world, where a browser runs until
  it is closed: on every path, failing or not, the browsers running after the run
  were running before it; and from a world in order, in which the handle of the
  launched browser is fresh, the run leaves exactly the browsers it found, so it
  closes the one it launched and no other.
\<close>

theorem run_leaks_no_browser:
  "live_browsers (state_of (main world_api w)) \<subseteq> live_browsers w \<and>
   (wf_world w \<longrightarrow> live_browsers (state_of (main world_api w)) = live_browsers w)"
  by (auto simp: world_run is_Exception_def split: option.splits if_splits dest: wf_worldD)

theorem run_leaks_no_browser_witness:
  "wf_world ((demo_world 500)\<lparr>next_handle := 1, live_browsers := {0}\<rparr>) \<and>
   live_browsers (state_of (main world_api
     ((demo_world 500)\<lparr>next_handle := 1, live_browsers := {0}\<rparr>))) = {0}"
  using run_leaks_no_browser [of "(demo_world 500)\<lparr>next_handle := 1, live_browsers := {0}\<rparr>"]
  by (simp add: demo_defs wf_world_def)

text \<open>
  In the simulated world every run of the script ends in the phase \<open>Exited\<close> of
  the session protocol: the phase \<open>Unclosed\<close> needs a page that cannot be opened in a
  browser that was just launched, which the simulated world never produces.
\<close>

theorem world_run_ends_Exited:
  "steps Idle (trace_of (main (traced world_api) (w, []))) Exited"
proof -
  have "final_phase world_api w = Exited"
    by (auto simp: final_phase_def api_simps w_sync_playwright_def w_launch_def
        w_new_page_def split: prod.splits sum.splits)
  then show ?thesis using steps_main_calls [of world_api w] by (simp add: main_traced)
qed

section \<open>Runs with a fill that waits\<close>

lemmas waiting_run = w_fill_waiting_def waiting_api_simps world_run

lemma waiting_ready_run:
  assumes "served_at w = Some ''http://localhost:3000''"
    and "attach_delay w ''#maxPoints'' = Some d1" and "d1 \<le> 30000"
    and "attach_delay w ''#examTitle'' = Some d2" and "d2 \<le> d1 + 30000"
    and "disk_writable w" and "browser_installed w"
  shows "outcome_of (main waiting_api w) = Inr ()"
    and "stdout (state_of (main waiting_api w)) = stdout w @ [''Screenshot taken'']"
    and "files (state_of (main waiting_api w)) =
           (files w)(''verification.png'' \<mapsto>
             (filled, if debounce_ms w \<le> 1000 then filled else Map.empty))"
    and "clock (state_of (main waiting_api w)) = clock w + max d1 d2 + 1000"
  using assms by (simp_all add: waiting_run max_def)

text \<open>
  C34. With a fill that waits for its element, the title field may appear later than
  the points field: as long as it appears within the timeout of the fill, the script
  returns normally, prints the confirmation and writes the screenshot with both
  inputs, and the run takes the later of the two delays plus the 1000 ms.
\<close>

theorem waiting_fill_tolerates_late_title:
  assumes "served_at w = Some ''http://localhost:3000''"
    and "attach_delay w ''#maxPoints'' = Some d1" and "d1 \<le> 30000"
    and "attach_delay w ''#examTitle'' = Some d2" and "d1 < d2" and "d2 \<le> d1 + 30000"
    and "disk_writable w" and "browser_installed w"
  shows "outcome_of (main waiting_api w) = Inr () \<and>
         stdout (state_of (main waiting_api w)) = stdout w @ [''Screenshot taken''] \<and>
         files (state_of (main waiting_api w)) =
           (files w)(''verification.png'' \<mapsto>
             (filled, if debounce_ms w \<le> 1000 then filled else Map.empty)) \<and>
         clock (state_of (main waiting_api w)) = clock w + d2 + 1000"
  using waiting_ready_run [OF assms(1-4) assms(6-8)] assms(5) by (simp add: max_def)

theorem waiting_fill_tolerates_late_title_witness:
  "outcome_of (main waiting_api (boot (Some ''http://localhost:3000'')
       [''#examTitle'' \<mapsto> 200, ''#maxPoints'' \<mapsto> 120] 500)) = Inr () \<and>
   files (state_of (main waiting_api (boot (Some ''http://localhost:3000'')
       [''#examTitle'' \<mapsto> 200, ''#maxPoints'' \<mapsto> 120] 500)))
     = [''verification.png'' \<mapsto> (filled, filled)] \<and>
   clock (state_of (main waiting_api (boot (Some ''http://localhost:3000'')
       [''#examTitle'' \<mapsto> 200, ''#maxPoints'' \<mapsto> 120] 500))) = 1200"
  using waiting_fill_tolerates_late_title [of "boot (Some ''http://localhost:3000'')
       [''#examTitle'' \<mapsto> 200, ''#maxPoints'' \<mapsto> 120] 500" 120 200]
  by (simp add: boot_def)

text \<open>
  C35. When the title field appears no later than the points field, waiting makes no
  difference: the script over the waiting world and over the failing one give the
  same outcome and the same world, on every path. The waits of the fills take no
  time then, and no time passing leaves the world as it is (\<open>elapse_elapse\<close>).
\<close>

theorem waiting_makes_no_difference_when_ready:
  assumes "attach_delay w ''#maxPoints'' = Some d1"
    and "attach_delay w ''#examTitle'' = Some d2" and "d2 \<le> d1"
  shows "main waiting_api w = main world_api w"
  using assms
  by (simp add: w_fill_waiting_def main_run_defs verify_app_def api_simps run_simps
      world_op_defs)

theorem waiting_makes_no_difference_when_ready_witness:
  "main waiting_api (demo_world 500) = main world_api (demo_world 500)"
  by (rule waiting_makes_no_difference_when_ready [of _ 120 80]) (simp_all add: demo_defs)

text \<open>
  The script keeps the world in order over the waiting world as well: the
  invariant is lifted from the operations to the script once, for every
  implementation of the interface, and the waiting world inherits it from the
  failing one.
\<close>

lemma main_keeps_waiting_world_in_order:
  "wf_world w \<Longrightarrow> wf_world (state_of (main waiting_api w))"
  using preserves_main [OF waiting_api_preserves [OF world_api_preserves_wf]]
  by (rule preservesD)

end
